theory Spec2Isabelle
  imports Complex_Main "HOL-Library.Signed_Division"
begin

section \<open>Catto: the per-frame simulation of game.js\<close>

text \<open>
  The model follows the first (current) revision of \<^verbatim>\<open>game.js\<close>, function by function.
  JavaScript numbers are modelled by their mathematical values: \<open>real\<close> for every quantity
  that takes part in non-integral arithmetic (positions, velocities, hit points, damage,
  cooldowns), \<open>int\<close> for the counters that are only incremented, compared and floored
  (time, kills, level, xp, xpNext), \<open>nat\<close> for ability levels and array indices. IEEE-754
  rounding of binary64 is not modelled. \<open>undefined\<close> and \<open>NaN\<close> are \<open>None\<close> of an option type
  wherever the source can read them. The canvas, the DOM and \<open>localStorage\<close> are the
  environment: the canvas size and the storage are fields of the world, and the only part of
  the DOM kept is the list of upgrade buttons, which is what \<open>selectUpgrade\<close> is reached by.
\<close>

subsection \<open>Built-ins of the platform\<close>

definition hypot :: "real \<Rightarrow> real \<Rightarrow> real" where
  \<comment> \<open>\<^verbatim>\<open>Math.hypot(a, b)\<close>\<close>
  "hypot a b = sqrt (a\<^sup>2 + b\<^sup>2)"

definition splice1 :: "nat \<Rightarrow> 'a list \<Rightarrow> 'a list" where
  \<comment> \<open>\<^verbatim>\<open>xs.splice(i, 1)\<close>: removes the element at index \<open>i\<close>, nothing when \<open>i\<close> is past the end\<close>
  "splice1 i xs = take i xs @ drop (Suc i) xs"

typedef rand01 = "{r::real. 0 \<le> r \<and> r < 1}"
  morphisms rand_val Rand
  by (rule exI [of _ 0]) simp

text \<open>
  \<^verbatim>\<open>Math.random()\<close> returns a number in \<open>[0, 1)\<close>; the type \<open>rand01\<close> holds exactly these.
  The generator is a stream of such numbers and a read position.
\<close>

subsubsection \<open>parseInt and Number-to-string\<close>

definition isWhiteSpace :: "char \<Rightarrow> bool" where
  \<comment> \<open>StrWhiteSpaceChar among the code units below 256, which is what a \<open>char\<close> holds:
      TAB, LF, VT, FF, CR, SP and NBSP. The white space of higher code units (U+FEFF,
      U+2028 and the like) has no \<open>char\<close> and is outside the model.\<close>
  "isWhiteSpace c = (of_char c \<in> {9::nat, 10, 11, 12, 13, 32, 160})"

definition digitValue :: "char \<Rightarrow> nat option" where
  "digitValue c = map_of
     (zip ''0123456789abcdefABCDEF''
          [0, 1, 2, 3, 4, 5, 6, 7, 8, 9, 10, 11, 12, 13, 14, 15, 10, 11, 12, 13, 14, 15]) c"

definition radixDigit :: "nat \<Rightarrow> char \<Rightarrow> bool" where
  "radixDigit R c = (case digitValue c of None \<Rightarrow> False | Some d \<Rightarrow> d < R)"

definition digitsValue :: "nat \<Rightarrow> string \<Rightarrow> nat" where
  "digitsValue R Z = foldl (\<lambda>a c. a * R + (case digitValue c of None \<Rightarrow> 0 | Some d \<Rightarrow> d)) 0 Z"

fun hexPrefix :: "string \<Rightarrow> bool" where
  \<comment> \<open>the string has at least two characters and starts with \<^verbatim>\<open>0x\<close> or \<^verbatim>\<open>0X\<close>\<close>
  "hexPrefix (c # d # _) = (c = CHR ''0'' \<and> (d = CHR ''x'' \<or> d = CHR ''X''))"
| "hexPrefix _ = False"

definition parseInt :: "string \<Rightarrow> int option" where
  \<comment> \<open>\<^verbatim>\<open>parseInt(s)\<close> with no radix argument (ECMAScript 19.2.5); \<open>None\<close> is \<open>NaN\<close>.
      Radix 10, or 16 after a \<^verbatim>\<open>0x\<close> prefix; the digits stop at the first character
      that is not a digit; no digit at all gives \<open>NaN\<close>. The result is the exact integer:
      it is the JavaScript result for digit strings of value up to \<open>2^53\<close>, beyond which
      JavaScript rounds to binary64 and the model does not.\<close>
  "parseInt s =
     (let S = dropWhile isWhiteSpace s;
          sign = (if S \<noteq> [] \<and> hd S = CHR ''-'' then - 1 else 1 :: int);
          S1 = (if S \<noteq> [] \<and> (hd S = CHR ''+'' \<or> hd S = CHR ''-'') then tl S else S);
          hex = hexPrefix S1;
          R = (if hex then 16 else 10 :: nat);
          S2 = (if hex then drop 2 S1 else S1);
          Z = takeWhile (radixDigit R) S2
      in if Z = [] then None else Some (sign * int (digitsValue R Z)))"

definition digitChar :: "nat \<Rightarrow> char" where
  "digitChar d = ''0123456789'' ! d"

fun digits :: "nat \<Rightarrow> string" where
  "digits n = (if n < 10 then [digitChar n] else digits (n div 10) @ [digitChar (n mod 10)])"

declare digits.simps [simp del]

definition Number_toString :: "int \<Rightarrow> string" where
  \<comment> \<open>\<^verbatim>\<open>String(n)\<close> for an integral Number (of magnitude below \<open>10^21\<close>, where JavaScript
      still prints every digit)\<close>
  "Number_toString n = (if n < 0 then CHR ''-'' # digits (nat (- n)) else digits (nat n))"

subsection \<open>Data model\<close>

datatype ability_key = clawOrbit | whiskerWhip | hairballBurst | pawSlam | catNap

datatype enemy_type = rat | dog | crow

datatype projectile_type = whip | hairball

datatype particle_type = slam

record player_state =
  p_x :: real
  p_y :: real
  p_hp :: real
  p_maxHp :: real
  p_level :: int
  p_xp :: int
  p_xpNext :: int
  p_speed :: real
  p_width :: real
  p_height :: real
  p_facingLeft :: bool
  p_invulnerable :: "int option"  \<comment> \<open>absent until the first hit or nap\<close>

record claw =
  c_angle :: real
  c_distance :: real
  c_x :: "real option"  \<comment> \<open>absent until \<open>updateAbilities\<close> places the claw\<close>
  c_y :: "real option"

record abilities_state =
  a_level :: "ability_key \<Rightarrow> nat"
  a_cooldown :: "ability_key \<Rightarrow> real option"  \<comment> \<open>\<open>clawOrbit\<close> has none before \<open>startGame\<close>\<close>
  claws :: "claw list"
  rotation :: real

record enemy =
  e_x :: real
  e_y :: real
  e_hp :: real
  e_maxHp :: real
  e_speed :: real
  e_damage :: real
  e_color :: string
  e_size :: real
  e_xpValue :: int
  e_type :: enemy_type
  e_wave :: int
  e_facingLeft :: bool

record projectile =
  pr_x :: real
  pr_y :: real
  pr_dx :: real
  pr_dy :: real
  pr_damage :: real
  pr_range :: "real option"  \<comment> \<open>only the whip sets it\<close>
  pr_pierce :: bool  \<comment> \<open>absent on a hairball, which \<^verbatim>\<open>!proj.pierce\<close> reads as false\<close>
  pr_bounce :: bool
  pr_explode :: bool
  pr_type :: projectile_type
  pr_life :: real

record xpOrb =
  o_x :: real
  o_y :: real
  o_value :: int
  o_life :: int

record particle =
  pt_x :: real
  pt_y :: real
  pt_radius :: real
  pt_life :: int
  pt_type :: particle_type

record timer =
  \<comment> \<open>a callback queued by \<^verbatim>\<open>setTimeout\<close>: it subtracts \<open>t_damage\<close> from the hp of the enemy
      object it captured, \<open>t_delay\<close> milliseconds later, outside the tick\<close>
  t_delay :: nat
  t_damage :: real
  t_target :: enemy

record upgrade =
  u_key :: ability_key
  u_name :: string
  u_description :: string
  u_isNew :: bool

record world =
  player :: player_state
  time :: int
  kills :: int
  paused :: bool
  gameOver_flag :: bool  \<comment> \<open>\<^verbatim>\<open>gameState.gameOver\<close>\<close>
  abilities :: abilities_state
  enemies :: "enemy list"
  projectiles :: "projectile list"
  xpOrbs :: "xpOrb list"
  particles :: "particle list"
  keys :: "string \<rightharpoonup> bool"
  canvas_width :: real
  canvas_height :: real
  localStorage :: "string \<rightharpoonup> string"
  rng :: "nat \<Rightarrow> rand01"
  rng_pos :: nat
  timers :: "timer list"
  upgradeChoices :: "upgrade list"  \<comment> \<open>the buttons of the level-up modal\<close>

definition Math_random :: "world \<Rightarrow> real \<times> world" where
  "Math_random w = (rand_val (rng w (rng_pos w)), w\<lparr>rng_pos := Suc (rng_pos w)\<rparr>)"

subsection \<open>The ability table\<close>

definition ability_keys :: "ability_key list" where
  \<comment> \<open>\<^verbatim>\<open>Object.entries(abilities)\<close>, in insertion order\<close>
  "ability_keys = [clawOrbit, whiskerWhip, hairballBurst, pawSlam, catNap]"

fun a_name :: "ability_key \<Rightarrow> string" where
  "a_name clawOrbit = ''Claw Orbit''"
| "a_name whiskerWhip = ''Whisker Whip''"
| "a_name hairballBurst = ''Hairball Burst''"
| "a_name pawSlam = ''Paw Slam''"
| "a_name catNap = ''Cat Nap''"

definition a_maxLevel :: "ability_key \<Rightarrow> nat" where
  "a_maxLevel k = 5"

definition whiskerWhip_maxCooldown :: real where "whiskerWhip_maxCooldown = 120"
definition hairballBurst_maxCooldown :: real where "hairballBurst_maxCooldown = 180"
definition pawSlam_maxCooldown :: real where "pawSlam_maxCooldown = 150"
definition catNap_maxCooldown :: real where "catNap_maxCooldown = 1800"

fun a_descriptions :: "ability_key \<Rightarrow> string list" where
  "a_descriptions clawOrbit =
     [''2 claws rotate steadily'', ''Claws rotate faster, +25% damage'',
      ''Adds 2 more claws (total 4)'', ''Claws grow larger, +30% damage'',
      ''Max speed, claws leave damaging afterimages'']"
| "a_descriptions whiskerWhip =
     [''Fires a whip forward every 2 seconds'', ''Cooldown reduced'',
      ''Whip length increased'', ''Hits pierce through multiple enemies'',
      ''Whip splits into two directions'']"
| "a_descriptions hairballBurst =
     [''Fires one hairball in random direction'', ''Damage increased'',
      ''+1 extra hairball'', ''Hairballs bounce once after hitting'',
      ''Hairballs explode into fragments'']"
| "a_descriptions pawSlam =
     [''Small AoE slam around the cat'', ''Damage +20%'', ''Larger radius'',
      ''Leaves burning paw print'', ''Double slam (hits twice)'']"
| "a_descriptions catNap =
     [''Recover small HP after 30 sec'', ''Also reduces damage taken by 5%'',
      ''Heal amount increased'', ''Gain brief invulnerability after napping'',
      ''Auto-heal every 20 sec'']"

definition clawOrbit_damage :: real where "clawOrbit_damage = 12"
definition clawOrbit_speed :: real where "clawOrbit_speed = 2.2"
definition whiskerWhip_damage :: real where "whiskerWhip_damage = 25"
definition hairballBurst_damage :: real where "hairballBurst_damage = 20"
definition pawSlam_damage :: real where "pawSlam_damage = 30"
definition pawSlam_radius :: real where "pawSlam_radius = 60"
definition catNap_healing :: real where "catNap_healing = 20"

record enemy_template =
  et_hp :: real
  et_speed :: real
  et_damage :: real
  et_color :: string
  et_size :: real
  et_xpValue :: real

fun enemyTypes :: "enemy_type \<Rightarrow> enemy_template" where
  "enemyTypes rat = \<lparr>et_hp = 12, et_speed = 0.7, et_damage = 2, et_color = ''#8B4513'',
                     et_size = 8, et_xpValue = 2\<rparr>"
| "enemyTypes dog = \<lparr>et_hp = 30, et_speed = 1.5, et_damage = 6, et_color = ''#654321'',
                     et_size = 12, et_xpValue = 4\<rparr>"
| "enemyTypes crow = \<lparr>et_hp = 40, et_speed = 1.2, et_damage = 5, et_color = ''#2F2F2F'',
                      et_size = 10, et_xpValue = 6\<rparr>"

subsection \<open>High score persistence\<close>

definition getHighScore :: "world \<Rightarrow> int option" where
  \<comment> \<open>\<^verbatim>\<open>parseInt(localStorage.getItem('catto_highscore') || '0')\<close>: an absent item is
      \<open>null\<close> and, like the empty string, falsy\<close>
  "getHighScore w =
     parseInt (case localStorage w ''catto_highscore'' of
                 None \<Rightarrow> ''0''
               | Some s \<Rightarrow> if s = [] then ''0'' else s)"

definition gameOver :: "world \<Rightarrow> world" where
  \<comment> \<open>\<^verbatim>\<open>finalScore > currentHighScore\<close> is false when the high score read is \<open>NaN\<close>\<close>
  "gameOver w =
     (let w1 = w\<lparr>gameOver_flag := True\<rparr>;
          finalScore = kills w1;
          currentHighScore = getHighScore w1
      in if (case currentHighScore of None \<Rightarrow> False | Some h \<Rightarrow> finalScore > h)
         then w1\<lparr>localStorage := (localStorage w1)(''catto_highscore'' \<mapsto> Number_toString finalScore)\<rparr>
         else w1)"

subsection \<open>Progression: level-up and upgrades\<close>

definition initClawOrbit :: "abilities_state \<Rightarrow> abilities_state" where
  "initClawOrbit ab =
     (let clawCount = (if a_level ab clawOrbit \<ge> 3 then 4 else 2 :: nat)
      in ab\<lparr>claws := map (\<lambda>i. \<lparr>c_angle = (pi * 2 / real clawCount) * real i,
                                 c_distance = 55, c_x = None, c_y = None\<rparr>) [0..<clawCount]\<rparr>)"

definition availableUpgrades :: "abilities_state \<Rightarrow> upgrade list" where
  "availableUpgrades ab =
     map (\<lambda>k. \<lparr>u_key = k, u_name = a_name k,
               u_description = a_descriptions k ! a_level ab k,
               u_isNew = (a_level ab k = 0)\<rparr>)
         (filter (\<lambda>k. a_level ab k < a_maxLevel k) ability_keys)"

function selectUpgrades :: "upgrade list \<Rightarrow> upgrade list \<Rightarrow> world \<Rightarrow> upgrade list \<times> world" where
  \<comment> \<open>the \<^verbatim>\<open>while\<close> loop of \<open>showLevelUpModal\<close>\<close>
  "selectUpgrades selectedUpgrades available w =
     (if length selectedUpgrades < 2 \<and> length available > 0
      then (let (r, w') = Math_random w;
                randomIndex = nat \<lfloor>r * real (length available)\<rfloor>
            in selectUpgrades (selectedUpgrades @ [available ! randomIndex])
                              (splice1 randomIndex available) w')
      else (selectedUpgrades, w))"
  by pat_completeness auto
termination
  by (relation "measure (\<lambda>(sel, av, w). 2 - length sel)") auto

declare selectUpgrades.simps [simp del]

definition showLevelUpModal :: "world \<Rightarrow> world" where
  "showLevelUpModal w =
     (let w1 = w\<lparr>paused := True\<rparr>;
          (selectedUpgrades, w2) = selectUpgrades [] (availableUpgrades (abilities w1)) w1
      in w2\<lparr>upgradeChoices := selectedUpgrades\<rparr>)"

definition selectUpgrade :: "ability_key \<Rightarrow> world \<Rightarrow> world" where
  "selectUpgrade abilityKey w =
     (let ab = abilities w;
          ab1 = ab\<lparr>a_level := (a_level ab)(abilityKey := Suc (a_level ab abilityKey))\<rparr>;
          ab2 = (if abilityKey = clawOrbit then initClawOrbit ab1 else ab1)
      in w\<lparr>abilities := ab2, paused := False\<rparr>)"

definition levelUp :: "world \<Rightarrow> world" where
  "levelUp w =
     (let p = player w;
          p1 = p\<lparr>p_level := p_level p + 1\<rparr>;
          p2 = p1\<lparr>p_xp := p_xp p1 - p_xpNext p1\<rparr>;
          p3 = (if p_level p2 \<le> 5
                then p2\<lparr>p_xpNext := \<lfloor>real_of_int (p_xpNext p2) * 1.12\<rfloor>\<rparr>
                else if p_level p2 \<le> 10
                then p2\<lparr>p_xpNext := \<lfloor>real_of_int (p_xpNext p2) * 1.15\<rfloor>\<rparr>
                else p2\<lparr>p_xpNext := \<lfloor>real_of_int (p_xpNext p2) * 1.18\<rfloor>\<rparr>);
          p4 = p3\<lparr>p_maxHp := 100\<rparr>;
          p5 = p4\<lparr>p_hp := min 100 (p_hp p4 + 20)\<rparr>
      in showLevelUpModal (w\<lparr>player := p5\<rparr>))"

subsection \<open>Player movement\<close>

definition pressed :: "world \<Rightarrow> string \<Rightarrow> bool" where
  \<comment> \<open>\<^verbatim>\<open>keys[k]\<close> read as a condition: a key never seen is \<open>undefined\<close>, falsy\<close>
  "pressed w k = (keys w k = Some True)"

definition movePlayer :: "world \<Rightarrow> player_state" where
  \<comment> \<open>the four key tests of \<open>updatePlayer\<close>, before the clamp\<close>
  "movePlayer w =
     (let p = player w;
          p1 = (if pressed w ''w'' \<or> pressed w ''arrowup''
                then p\<lparr>p_y := p_y p - p_speed p\<rparr> else p);
          p2 = (if pressed w ''s'' \<or> pressed w ''arrowdown''
                then p1\<lparr>p_y := p_y p1 + p_speed p1\<rparr> else p1);
          p3 = (if pressed w ''a'' \<or> pressed w ''arrowleft''
                then p2\<lparr>p_x := p_x p2 - p_speed p2, p_facingLeft := True\<rparr> else p2);
          p4 = (if pressed w ''d'' \<or> pressed w ''arrowright''
                then p3\<lparr>p_x := p_x p3 + p_speed p3, p_facingLeft := False\<rparr> else p3)
      in p4)"

definition updatePlayer :: "world \<Rightarrow> world" where
  "updatePlayer w =
     (let p4 = movePlayer w;
          p5 = p4\<lparr>p_x := max 30 (min (canvas_width w - 30) (p_x p4))\<rparr>;
          p6 = p5\<lparr>p_y := max 30 (min (canvas_height w - 30) (p_y p5))\<rparr>
      in w\<lparr>player := p6\<rparr>)"

subsection \<open>Abilities\<close>

definition gt0 :: "real option \<Rightarrow> bool" where
  \<comment> \<open>\<^verbatim>\<open>c > 0\<close>, false on \<open>undefined\<close>\<close>
  "gt0 c = (case c of None \<Rightarrow> False | Some v \<Rightarrow> v > 0)"

definition le0 :: "real option \<Rightarrow> bool" where
  \<comment> \<open>\<^verbatim>\<open>c <= 0\<close>, false on \<open>undefined\<close>\<close>
  "le0 c = (case c of None \<Rightarrow> False | Some v \<Rightarrow> v \<le> 0)"

definition fireWhiskerWhip :: "world \<Rightarrow> world" where
  "fireWhiskerWhip w =
     (let lv = a_level (abilities w) whiskerWhip;
          directions = (if lv \<ge> 5 then [0, pi] else [0])
      in w\<lparr>projectiles := projectiles w @
             map (\<lambda>dir. \<lparr>pr_x = p_x (player w), pr_y = p_y (player w),
                          pr_dx = cos dir * 4, pr_dy = sin dir * 4,
                          pr_damage = whiskerWhip_damage,
                          pr_range = Some (if lv \<ge> 3 then 120 else 80),
                          pr_pierce = (lv \<ge> 4), pr_bounce = False, pr_explode = False,
                          pr_type = whip, pr_life = 0\<rparr>) directions\<rparr>)"

fun fireHairball_from :: "nat \<Rightarrow> world \<Rightarrow> world" where
  \<comment> \<open>the \<^verbatim>\<open>for\<close> loop of \<open>fireHairball\<close>, with the number of rounds left\<close>
  "fireHairball_from 0 w = w"
| "fireHairball_from (Suc n) w =
     (let lv = a_level (abilities w) hairballBurst;
          (r, w1) = Math_random w;
          angle = r * pi * 2;
          damage = (if lv \<ge> 2 then hairballBurst_damage * 1.5 else hairballBurst_damage)
      in fireHairball_from n
           (w1\<lparr>projectiles := projectiles w1 @
                 [\<lparr>pr_x = p_x (player w1), pr_y = p_y (player w1),
                   pr_dx = cos angle * 3, pr_dy = sin angle * 3,
                   pr_damage = damage, pr_range = None,
                   pr_pierce = False, pr_bounce = (lv \<ge> 4), pr_explode = (lv \<ge> 5),
                   pr_type = hairball, pr_life = 0\<rparr>]\<rparr>))"

definition fireHairball :: "world \<Rightarrow> world" where
  "fireHairball w =
     (let count = (if a_level (abilities w) hairballBurst \<ge> 3 then 2 else 1)
      in fireHairball_from count w)"

definition pawSlam_fire :: "world \<Rightarrow> world" where
  \<comment> \<open>the function \<^verbatim>\<open>pawSlam()\<close>; the name \<open>pawSlam\<close> is the ability's key\<close>
  "pawSlam_fire w =
     (let lv = a_level (abilities w) pawSlam;
          radius = (if lv \<ge> 3 then pawSlam_radius * 1.5 else pawSlam_radius);
          damage = (if lv \<ge> 2 then pawSlam_damage * 1.2 else pawSlam_damage);
          inside = (\<lambda>enemy. hypot (e_x enemy - p_x (player w)) (e_y enemy - p_y (player w)) \<le> radius);
          hit = (\<lambda>enemy. enemy\<lparr>e_hp := e_hp enemy - damage\<rparr>)
      in w\<lparr>enemies := map (\<lambda>enemy. if inside enemy then hit enemy else enemy) (enemies w),
            timers := timers w @
              (if lv \<ge> 5
               then map (\<lambda>enemy. \<lparr>t_delay = 200, t_damage = damage * 0.5, t_target = hit enemy\<rparr>)
                        (filter inside (enemies w))
               else []),
            particles := particles w @
              [\<lparr>pt_x = p_x (player w), pt_y = p_y (player w), pt_radius = radius, pt_life = 30,
                pt_type = slam\<rparr>]\<rparr>)"

definition catNap_fire :: "world \<Rightarrow> world" where
  \<comment> \<open>the function \<^verbatim>\<open>catNap()\<close>; the name \<open>catNap\<close> is the ability's key\<close>
  "catNap_fire w =
     (let lv = a_level (abilities w) catNap;
          healing = (if lv \<ge> 3 then catNap_healing * 1.5 else catNap_healing);
          p = player w;
          p1 = p\<lparr>p_hp := min 100 (p_hp p + healing)\<rparr>;
          p2 = (if lv \<ge> 4 then p1\<lparr>p_invulnerable := Some 180\<rparr> else p1)
      in w\<lparr>player := p2\<rparr>)"

definition set_cooldown :: "ability_key \<Rightarrow> real \<Rightarrow> world \<Rightarrow> world" where
  "set_cooldown k c w =
     w\<lparr>abilities := (abilities w)\<lparr>a_cooldown := (a_cooldown (abilities w))(k \<mapsto> c)\<rparr>\<rparr>"

definition updateAbilities :: "world \<Rightarrow> world" where
  "updateAbilities w =
     (let ab = abilities w;
          ab1 = (if a_level ab clawOrbit > 0
                 then (let speedMultiplier = (if a_level ab clawOrbit \<ge> 2 then 2 else 1);
                           finalSpeed = (if a_level ab clawOrbit \<ge> 5 then 4 else speedMultiplier);
                           rot = rotation ab + clawOrbit_speed * finalSpeed * 0.02
                       in ab\<lparr>rotation := rot,
                             claws := map (\<lambda>c. c\<lparr>c_x := Some (p_x (player w) + cos (rot + c_angle c) * c_distance c),
                                                  c_y := Some (p_y (player w) + sin (rot + c_angle c) * c_distance c)\<rparr>)
                                          (claws ab)\<rparr>)
                 else ab);
          ab2 = ab1\<lparr>a_cooldown := (\<lambda>k. if gt0 (a_cooldown ab1 k)
                                         then map_option (\<lambda>c. c - 1) (a_cooldown ab1 k)
                                         else a_cooldown ab1 k)\<rparr>;
          w2 = w\<lparr>abilities := ab2\<rparr>;
          w3 = (if a_level (abilities w2) whiskerWhip > 0 \<and> le0 (a_cooldown (abilities w2) whiskerWhip)
                then (let w' = fireWhiskerWhip w2;
                          cooldown = (if a_level (abilities w') whiskerWhip \<ge> 2
                                      then whiskerWhip_maxCooldown * 0.7 else whiskerWhip_maxCooldown)
                      in set_cooldown whiskerWhip cooldown w')
                else w2);
          w4 = (if a_level (abilities w3) hairballBurst > 0 \<and> le0 (a_cooldown (abilities w3) hairballBurst)
                then set_cooldown hairballBurst hairballBurst_maxCooldown (fireHairball w3)
                else w3);
          w5 = (if a_level (abilities w4) pawSlam > 0 \<and> le0 (a_cooldown (abilities w4) pawSlam)
                then set_cooldown pawSlam pawSlam_maxCooldown (pawSlam_fire w4)
                else w4);
          w6 = (if a_level (abilities w5) catNap > 0 \<and> le0 (a_cooldown (abilities w5) catNap)
                then (let w' = catNap_fire w5;
                          cooldown = (if a_level (abilities w') catNap \<ge> 5
                                      then 1200 else catNap_maxCooldown)
                      in set_cooldown catNap cooldown w')
                else w5)
      in w6)"

subsection \<open>Enemy spawning\<close>

definition maxEnemies :: "world \<Rightarrow> int" where
  "maxEnemies w =
     (let baseEnemyCap = 15;
          timeCap = \<lfloor>real_of_int (time w) / 1800\<rfloor> * 5;
          levelCap = \<lfloor>real_of_int (p_level (player w)) / 3\<rfloor> * 3
      in min (baseEnemyCap + timeCap + levelCap) 50)"

definition selectType :: "int \<Rightarrow> world \<Rightarrow> enemy_type \<times> world" where
  \<comment> \<open>the enemy type drawn for wave \<open>wave\<close>\<close>
  "selectType wave w =
     (if wave \<ge> 4 \<and> p_level (player w) \<ge> 5
      then (let (rand, w1) = Math_random w
            in (if rand < 0.4 then rat else if rand < 0.7 then dog else crow, w1))
      else if wave \<ge> 2 \<and> p_level (player w) \<ge> 2
      then (let (rand, w1) = Math_random w
            in (if rand < 0.6 then rat else dog, w1))
      else (rat, w))"

definition spawnPosition :: "world \<Rightarrow> (real \<times> real) \<times> world" where
  \<comment> \<open>the \<^verbatim>\<open>switch (side)\<close>; \<open>side\<close> is 0, 1, 2 or 3, and the last branch is case 3\<close>
  "spawnPosition w =
     (let (r, w1) = Math_random w;
          side = \<lfloor>r * 4\<rfloor>;
          (r', w2) = Math_random w1
      in if side = 0 then ((r' * canvas_width w2, - 20), w2)
         else if side = 1 then ((canvas_width w2 + 20, r' * canvas_height w2), w2)
         else if side = 2 then ((r' * canvas_width w2, canvas_height w2 + 20), w2)
         else ((- 20, r' * canvas_height w2), w2))"

definition waveNumber :: "world \<Rightarrow> int" where
  "waveNumber w = \<lfloor>real_of_int (time w) / 1500\<rfloor> + 1"

definition finalSpawnRate :: "world \<Rightarrow> real" where
  "finalSpawnRate w =
     (let currentWaveTime = time w smod 1500;
          isWaveStart = (currentWaveTime < 600);
          waveMultiplier = (if isWaveStart then 2.0 else 1.0);
          baseSpawnRate = 0.008;
          waveScaling = min (real_of_int (waveNumber w) * 0.002) 0.015;
          levelMultiplier = min (real_of_int (p_level (player w)) * 0.002) 0.020
      in (baseSpawnRate + waveScaling + levelMultiplier) * waveMultiplier)"

definition newEnemy :: "enemy_type \<Rightarrow> int \<Rightarrow> int \<Rightarrow> real \<Rightarrow> real \<Rightarrow> enemy" where
  \<comment> \<open>the object pushed by \<open>spawnEnemies\<close>, for the wave and the player's level. The
      products are exact, where the browser floors binary64 products: when the exact
      product is an integer the browser can be one lower (a dog of wave 4 at level 6 has
      \<open>30 * 1.7 = 51\<close> hit points here and 50 there). Only the number of enemies is
      reasoned about below, never these fields.\<close>
  "newEnemy selectedType wave lv x y =
     (let enemyTemplate = enemyTypes selectedType;
          waveScaling = 1 + (real_of_int wave - 1) * 0.12;
          levelScaling = 1 + (real_of_int lv - 1) * 0.05;
          totalScaling = waveScaling * levelScaling
      in \<lparr>e_x = x, e_y = y,
          e_hp = of_int \<lfloor>et_hp enemyTemplate * totalScaling\<rfloor>,
          e_maxHp = of_int \<lfloor>et_hp enemyTemplate * totalScaling\<rfloor>,
          e_speed = et_speed enemyTemplate * min totalScaling 2.5,
          e_damage = of_int \<lfloor>et_damage enemyTemplate * totalScaling\<rfloor>,
          e_color = et_color enemyTemplate,
          e_size = et_size enemyTemplate,
          e_xpValue = \<lfloor>et_xpValue enemyTemplate * max totalScaling 1.2\<rfloor>,
          e_type = selectedType,
          e_wave = wave,
          e_facingLeft = False\<rparr>)"

definition spawnOne :: "world \<Rightarrow> world" where
  \<comment> \<open>the body of \<^verbatim>\<open>if (Math.random() < finalSpawnRate)\<close>\<close>
  "spawnOne w =
     (let (selectedType, w2) = selectType (waveNumber w) w;
          ((x, y), w3) = spawnPosition w2
      in w3\<lparr>enemies := enemies w3 @
              [newEnemy selectedType (waveNumber w) (p_level (player w)) x y]\<rparr>)"

definition spawnEnemies :: "world \<Rightarrow> world" where
  "spawnEnemies w =
     (if int (length (enemies w)) \<ge> maxEnemies w then w
      else (let (r, w1) = Math_random w
            in if r < finalSpawnRate w then spawnOne w1 else w1))"

subsection \<open>Array.prototype.forEach over a live array\<close>

text \<open>
  \<^verbatim>\<open>arr.forEach(f)\<close> reads the length once, then visits the indices \<open>0 .. len - 1\<close> in
  order, calling \<open>f(arr[k], k)\<close> only when index \<open>k\<close> is still present. A callback that
  splices the array shifts the later elements down: the element that moves into slot \<open>k\<close>
  is not visited, and the indices past the new end are skipped. The array is a field
  \<open>arr\<close> of the world, read again at every index.
\<close>

function forEach_from ::
  "(world \<Rightarrow> 'a list) \<Rightarrow> ('a \<Rightarrow> nat \<Rightarrow> world \<Rightarrow> world) \<Rightarrow> nat \<Rightarrow> nat \<Rightarrow> world \<Rightarrow> world" where
  "forEach_from arr f k len w =
     (if k < len
      then forEach_from arr f (Suc k) len (if k < length (arr w) then f (arr w ! k) k w else w)
      else w)"
  by pat_completeness auto
termination
  by (relation "measure (\<lambda>(arr, f, k, len, w). len - k)") auto

declare forEach_from.simps [simp del]

definition forEach :: "(world \<Rightarrow> 'a list) \<Rightarrow> ('a \<Rightarrow> nat \<Rightarrow> world \<Rightarrow> world) \<Rightarrow> world \<Rightarrow> world" where
  "forEach arr f w = forEach_from arr f 0 (length (arr w)) w"

subsection \<open>Enemies\<close>

definition dropXP :: "real \<Rightarrow> real \<Rightarrow> int \<Rightarrow> world \<Rightarrow> world" where
  "dropXP x y v w =
     (let (r, w1) = Math_random w
      in if r < 0.5
         then w1\<lparr>xpOrbs := xpOrbs w1 @ [\<lparr>o_x = x, o_y = y, o_value = v, o_life = 600\<rparr>]\<rparr>
         else w1)"

definition vulnerable :: "player_state \<Rightarrow> bool" where
  \<comment> \<open>\<^verbatim>\<open>!player.invulnerable || player.invulnerable <= 0\<close>\<close>
  "vulnerable p = (case p_invulnerable p of None \<Rightarrow> True | Some v \<Rightarrow> v = 0 \<or> v \<le> 0)"

definition clawHits :: "nat \<Rightarrow> claw \<Rightarrow> enemy \<Rightarrow> bool" where
  \<comment> \<open>a claw without coordinates gives a \<open>NaN\<close> distance, and the comparison is false\<close>
  "clawHits lv c enemy =
     (case (c_x c, c_y c) of
        (Some cx, Some cy) \<Rightarrow>
          (let clawDist = hypot (cx - e_x enemy) (cy - e_y enemy);
               clawSize = (if lv \<ge> 4 then 20 else 16)
           in clawDist < clawSize + e_size enemy)
      | _ \<Rightarrow> False)"

definition clawDamage :: "nat \<Rightarrow> real" where
  "clawDamage lv =
     (let damage = clawOrbit_damage;
          damage1 = (if lv \<ge> 2 then damage * 1.25 else damage);
          damage2 = (if lv \<ge> 4 then damage1 * 1.3 else damage1)
      in damage2)"

fun clawLoop :: "nat \<Rightarrow> claw list \<Rightarrow> enemy \<times> timer list \<Rightarrow> enemy \<times> timer list" where
  \<comment> \<open>\<^verbatim>\<open>abilities.clawOrbit.claws.forEach\<close> inside \<open>updateEnemies\<close>, on the enemy object
      of the callback; the claw list does not change meanwhile\<close>
  "clawLoop lv [] (enemy, ts) = (enemy, ts)"
| "clawLoop lv (c # cs) (enemy, ts) =
     (if clawHits lv c enemy
      then (let afterimageDamage = of_int \<lfloor>clawOrbit_damage * 0.4\<rfloor>;
                ts1 = (if lv \<ge> 5
                       then ts @ [\<lparr>t_delay = 150, t_damage = afterimageDamage, t_target = enemy\<rparr>]
                       else ts)
            in clawLoop lv cs (enemy\<lparr>e_hp := e_hp enemy - clawDamage lv\<rparr>, ts1))
      else clawLoop lv cs (enemy, ts))"

definition moveEnemy :: "player_state \<Rightarrow> enemy \<Rightarrow> enemy" where
  \<comment> \<open>the step toward the player\<close>
  "moveEnemy p enemy =
     (let dx = p_x p - e_x enemy;
          dy = p_y p - e_y enemy;
          dist = hypot dx dy
      in if dist > 0
         then enemy\<lparr>e_x := e_x enemy + (dx / dist) * e_speed enemy,
                    e_y := e_y enemy + (dy / dist) * e_speed enemy,
                    e_facingLeft := (if e_type enemy = crow then dx < 0
                                     else e_facingLeft enemy)\<rparr>
         else enemy)"

definition contactHit :: "enemy \<Rightarrow> nat \<Rightarrow> world \<Rightarrow> world" where
  \<comment> \<open>the body of the contact test: damage, invulnerability, removal, death check\<close>
  "contactHit enemy index w =
     (let damageReduction = (if a_level (abilities w) catNap \<ge> 2 then 0.95 else 1);
          finalDamage = max 1 \<lfloor>e_damage enemy * damageReduction\<rfloor>;
          p = player w;
          w1 = w\<lparr>player := p\<lparr>p_hp := p_hp p - of_int finalDamage\<rparr>\<rparr>;
          w2 = w1\<lparr>player := (player w1)\<lparr>p_invulnerable := Some 60\<rparr>\<rparr>;
          w3 = w2\<lparr>enemies := splice1 index (enemies w2)\<rparr>
      in if p_hp (player w3) \<le> 0 then gameOver w3 else w3)"

definition removeDead :: "enemy \<Rightarrow> nat \<Rightarrow> world \<Rightarrow> world" where
  \<comment> \<open>the body of \<^verbatim>\<open>if (enemy.hp <= 0)\<close>\<close>
  "removeDead enemy index w =
     (let w1 = dropXP (e_x enemy) (e_y enemy) (e_xpValue enemy) w;
          w2 = w1\<lparr>enemies := splice1 index (enemies w1)\<rparr>
      in w2\<lparr>kills := kills w2 + 1\<rparr>)"

definition enemyStep :: "enemy \<Rightarrow> nat \<Rightarrow> world \<Rightarrow> world" where
  \<comment> \<open>the callback of \<^verbatim>\<open>enemies.forEach\<close> in \<open>updateEnemies\<close>. \<open>enemy\<close> is the object
      at slot \<open>index\<close>; once the contact branch has spliced it out, later writes to it no
      longer reach the array, and a second \<^verbatim>\<open>splice(index, 1)\<close> removes whatever
      enemy has moved into the slot.\<close>
  "enemyStep enemy index w =
     (let p = player w;
          dist = hypot (p_x p - e_x enemy) (p_y p - e_y enemy);
          enemy1 = moveEnemy p enemy;
          contact = (dist < e_size enemy1 + 20 \<and> vulnerable p);
          w1 = (if contact then contactHit enemy1 index w else w);
          lv = a_level (abilities w1) clawOrbit;
          hits = (if lv > 0 then clawLoop lv (claws (abilities w1)) (enemy1, timers w1)
                  else (enemy1, timers w1));
          enemy2 = fst hits;
          w2 = w1\<lparr>timers := snd hits,
                  enemies := (if contact then enemies w1 else (enemies w1)[index := enemy2])\<rparr>
      in if e_hp enemy2 \<le> 0 then removeDead enemy2 index w2 else w2)"

definition updateEnemies :: "world \<Rightarrow> world" where
  "updateEnemies w =
     (let w1 = forEach enemies enemyStep w;
          p = player w1
      in case p_invulnerable p of
           None \<Rightarrow> w1
         | Some v \<Rightarrow> if v > 0 then w1\<lparr>player := p\<lparr>p_invulnerable := Some (v - 1)\<rparr>\<rparr> else w1)"

subsection \<open>Projectiles\<close>

definition projHit :: "projectile \<Rightarrow> nat \<Rightarrow> enemy \<Rightarrow> nat \<Rightarrow> world \<Rightarrow> world" where
  \<comment> \<open>the callback of the inner \<^verbatim>\<open>enemies.forEach\<close>, for the projectile object \<open>proj\<close>
      of slot \<open>projIndex\<close>\<close>
  "projHit proj projIndex enemy enemyIndex w =
     (let dist = hypot (pr_x proj - e_x enemy) (pr_y proj - e_y enemy)
      in if dist < e_size enemy + 5
         then (let w1 = w\<lparr>enemies := (enemies w)[enemyIndex := enemy\<lparr>e_hp := e_hp enemy - pr_damage proj\<rparr>]\<rparr>
               in if \<not> pr_pierce proj
                  then w1\<lparr>projectiles := splice1 projIndex (projectiles w1)\<rparr>
                  else w1)
         else w)"

definition tooFar :: "world \<Rightarrow> projectile \<Rightarrow> bool" where
  \<comment> \<open>\<^verbatim>\<open>proj.life > proj.range\<close> is false when the projectile has no range\<close>
  "tooFar w proj =
     (pr_x proj < - 50 \<or> pr_x proj > canvas_width w + 50 \<or>
      pr_y proj < - 50 \<or> pr_y proj > canvas_height w + 50 \<or>
      (case pr_range proj of None \<Rightarrow> False | Some r \<Rightarrow> pr_life proj > r))"

definition projStep :: "projectile \<Rightarrow> nat \<Rightarrow> world \<Rightarrow> world" where
  \<comment> \<open>the callback of \<^verbatim>\<open>projectiles.forEach\<close> in \<open>updateProjectiles\<close>\<close>
  "projStep proj projIndex w =
     (let proj1 = proj\<lparr>pr_x := pr_x proj + pr_dx proj,
                       pr_y := pr_y proj + pr_dy proj,
                       pr_life := pr_life proj + 1\<rparr>;
          w1 = w\<lparr>projectiles := (projectiles w)[projIndex := proj1]\<rparr>;
          w2 = forEach enemies (projHit proj1 projIndex) w1
      in if tooFar w2 proj1
         then w2\<lparr>projectiles := splice1 projIndex (projectiles w2)\<rparr>
         else w2)"

definition updateProjectiles :: "world \<Rightarrow> world" where
  "updateProjectiles w = forEach projectiles projStep w"

subsection \<open>Experience orbs and particles\<close>

definition collectOrb :: "xpOrb \<Rightarrow> nat \<Rightarrow> world \<Rightarrow> world" where
  \<comment> \<open>the body of \<^verbatim>\<open>if (dist < 20)\<close>\<close>
  "collectOrb orb index w =
     (let w1 = w\<lparr>player := (player w)\<lparr>p_xp := p_xp (player w) + o_value orb\<rparr>\<rparr>;
          w2 = w1\<lparr>xpOrbs := splice1 index (xpOrbs w1)\<rparr>
      in if p_xp (player w2) \<ge> p_xpNext (player w2) then levelUp w2 else w2)"

definition orbStep :: "xpOrb \<Rightarrow> nat \<Rightarrow> world \<Rightarrow> world" where
  \<comment> \<open>the callback of \<^verbatim>\<open>xpOrbs.forEach\<close> in \<open>updateXP\<close>; a collected orb is no longer
      in the array when its life is decremented\<close>
  "orbStep orb index w =
     (let p = player w;
          dist = hypot (o_x orb - p_x p) (o_y orb - p_y p);
          orb1 = (if dist < 30
                  then orb\<lparr>o_x := o_x orb + (p_x p - o_x orb) * 0.1,
                           o_y := o_y orb + (p_y p - o_y orb) * 0.1\<rparr>
                  else orb);
          collected = (dist < 20);
          w1 = (if collected then collectOrb orb1 index w else w);
          orb2 = orb1\<lparr>o_life := o_life orb1 - 1\<rparr>;
          w2 = (if collected then w1 else w1\<lparr>xpOrbs := (xpOrbs w1)[index := orb2]\<rparr>)
      in if o_life orb2 \<le> 0
         then w2\<lparr>xpOrbs := splice1 index (xpOrbs w2)\<rparr>
         else w2)"

definition updateXP :: "world \<Rightarrow> world" where
  "updateXP w = forEach xpOrbs orbStep w"

definition particleStep :: "particle \<Rightarrow> nat \<Rightarrow> world \<Rightarrow> world" where
  "particleStep particle index w =
     (let particle1 = particle\<lparr>pt_life := pt_life particle - 1\<rparr>;
          w1 = w\<lparr>particles := (particles w)[index := particle1]\<rparr>
      in if pt_life particle1 \<le> 0
         then w1\<lparr>particles := splice1 index (particles w1)\<rparr>
         else w1)"

definition updateParticles :: "world \<Rightarrow> world" where
  "updateParticles w = forEach particles particleStep w"

subsection \<open>The tick driver\<close>

definition gameLoop :: "world \<Rightarrow> world" where
  \<comment> \<open>one frame. \<open>render\<close> and \<open>updateUI\<close> only read the world (they write the canvas and the
      DOM), and \<open>requestAnimationFrame\<close> asks for the next frame.\<close>
  "gameLoop w =
     (if gameOver_flag w then w
      else if \<not> paused w
      then (let w1 = w\<lparr>time := time w + 1\<rparr>;
                w2 = updatePlayer w1;
                w3 = updateAbilities w2;
                w4 = spawnEnemies w3;
                w5 = updateEnemies w4;
                w6 = updateProjectiles w5;
                w7 = updateXP w6
            in updateParticles w7)
      else w)"

definition startGame :: "world \<Rightarrow> world" where
  "startGame w =
     (let p = \<lparr>p_x = 600, p_y = 400, p_hp = 100, p_maxHp = 100, p_level = 1, p_xp = 0,
               p_xpNext = 10, p_speed = 3, p_width = 38, p_height = 38, p_facingLeft = False,
               p_invulnerable = None\<rparr>;
          ab = (abilities w)\<lparr>a_level := (\<lambda>k. if a_name k = ''Claw Orbit'' then 1 else 0),
                             a_cooldown := (\<lambda>k. Some 0)\<rparr>;
          w1 = w\<lparr>player := p, time := 0, kills := 0, paused := False, gameOver_flag := False,
                 abilities := initClawOrbit ab,
                 enemies := [], projectiles := [], xpOrbs := [], particles := []\<rparr>
      in gameLoop w1)"

subsection \<open>Concrete worlds\<close>

definition half :: rand01 where
  "half = Rand (1/2)"

definition world0 :: world where
  \<comment> \<open>the values the module starts with, on the 1200 x 800 canvas the README names, with an
      empty storage, no key held, and a generator that returns 1/2 at every call\<close>
  "world0 =
     \<lparr>player = \<lparr>p_x = 600, p_y = 400, p_hp = 100, p_maxHp = 100, p_level = 1, p_xp = 0,
                 p_xpNext = 10, p_speed = 3, p_width = 38, p_height = 38,
                 p_facingLeft = False, p_invulnerable = None\<rparr>,
      time = 0, kills = 0, paused = False, gameOver_flag = False,
      abilities = \<lparr>a_level = (\<lambda>k. if k = clawOrbit then 1 else 0),
                    a_cooldown = (\<lambda>k. if k = clawOrbit then None else Some 0),
                    claws = [], rotation = 0\<rparr>,
      enemies = [], projectiles = [], xpOrbs = [], particles = [],
      keys = Map.empty, canvas_width = 1200, canvas_height = 800,
      localStorage = Map.empty, rng = (\<lambda>n. half), rng_pos = 0,
      timers = [], upgradeChoices = []\<rparr>"

definition world_level7 :: world where
  \<comment> \<open>level 7 with the threshold of 18 xp that the game reaches there
      (10, 11, 12, 13, 14, 16, 18), just met\<close>
  "world_level7 = world0\<lparr>player := (player world0)\<lparr>p_level := 7, p_xp := 18, p_xpNext := 18\<rparr>\<rparr>"

definition world_abc :: world where
  \<comment> \<open>seven kills, with a stored item that is not a number\<close>
  "world_abc = world0\<lparr>kills := 7, localStorage := [''catto_highscore'' \<mapsto> ''abc'']\<rparr>"

definition world_paused :: world where
  "world_paused = world0\<lparr>paused := True\<rparr>"

definition low :: rand01 where
  "low = Rand (1/100)"

definition world_spawning :: world where
  \<comment> \<open>the start of a game with a generator low enough for the spawn trial to succeed\<close>
  "world_spawning = world0\<lparr>rng := (\<lambda>n. low)\<rparr>"

definition world_at_edge :: world where
  \<comment> \<open>one pixel from the left bound, moving left\<close>
  "world_at_edge = world0\<lparr>player := (player world0)\<lparr>p_x := 31\<rparr>, keys := [''a'' \<mapsto> True]\<rparr>"

definition claws_east_west :: "claw list" where
  "claws_east_west =
     [\<lparr>c_angle = 0, c_distance = 55, c_x = Some 655, c_y = Some 400\<rparr>,
      \<lparr>c_angle = pi, c_distance = 55, c_x = Some 545, c_y = Some 400\<rparr>]"

definition world_armed :: world where
  \<comment> \<open>Claw Orbit, Whisker Whip and Hairball Burst at level 1, the two claws east and west
      of the player\<close>
  "world_armed =
     world0\<lparr>abilities := (abilities world0)\<lparr>
              a_level := (\<lambda>k. if k = pawSlam \<or> k = catNap then 0 else 1),
              claws := claws_east_west\<rparr>\<rparr>"

definition whip_shot :: projectile where
  \<comment> \<open>a level-1 whip, 25 frames after it left the player at (600, 400)\<close>
  "whip_shot = \<lparr>pr_x = 700, pr_y = 400, pr_dx = 4, pr_dy = 0, pr_damage = 25,
      pr_range = Some 80, pr_pierce = False, pr_bounce = False, pr_explode = False,
      pr_type = whip, pr_life = 25\<rparr>"

definition hairball_shot :: projectile where
  \<comment> \<open>a level-1 hairball flying west, 10 frames after it left the player: it was fired
      after the whip and so stands behind it in the array\<close>
  "hairball_shot = \<lparr>pr_x = 570, pr_y = 400, pr_dx = - 3, pr_dy = 0, pr_damage = 20,
      pr_range = None, pr_pierce = False, pr_bounce = False, pr_explode = False,
      pr_type = hairball, pr_life = 10\<rparr>"

definition rat_at :: "real \<Rightarrow> real \<Rightarrow> real \<Rightarrow> enemy" where
  \<comment> \<open>a Street Rat of wave 1 and level 1, at a position, with the hit points left\<close>
  "rat_at x y hp = \<lparr>e_x = x, e_y = y, e_hp = hp, e_maxHp = 12, e_speed = 0.7, e_damage = 2,
      e_color = ''#8B4513'', e_size = 8, e_xpValue = 2, e_type = rat, e_wave = 1,
      e_facingLeft = False\<rparr>"

definition world_two_rats :: world where
  \<comment> \<open>frame 1200 of a game at level 3 (two upgrades taken: the whip, then the hairball),
      with two rats side by side in the path of the whip; the hairball is far from both\<close>
  "world_two_rats =
     world_armed\<lparr>player := (player world0)\<lparr>p_level := 3, p_xp := 1, p_xpNext := 12\<rparr>,
                 time := 1200, kills := 14,
                 projectiles := [whip_shot, hairball_shot],
                 enemies := [rat_at 707 404 12, rat_at 704 410 12]\<rparr>"

definition rat_dead :: enemy where
  \<comment> \<open>a rat that the whip brought to -13 hit points in the frame before, 10 pixels from the player\<close>
  "rat_dead = rat_at 606 408 (- 13)"

definition rat_moved :: enemy where
  \<comment> \<open>\<open>rat_dead\<close> after its step of 0.7 toward the player\<close>
  "rat_moved = rat_at 605.58 407.44 (- 13)"

definition rat_far :: enemy where
  "rat_far = rat_at 900 400 12"

definition world_dead_rat_touches :: world where
  \<comment> \<open>the player's invulnerability has just run out; the dead rat is first in the array\<close>
  "world_dead_rat_touches =
     world_armed\<lparr>player := (player world0)\<lparr>p_hp := 98, p_invulnerable := Some 0\<rparr>,
                 enemies := [rat_dead, rat_far]\<rparr>"

definition player_hit :: player_state where
  "player_hit = (player world0)\<lparr>p_hp := 96, p_invulnerable := Some 60\<rparr>"

subsection \<open>Auxiliary notions\<close>

definition place :: "world \<Rightarrow> real \<times> real \<times> real \<times> real" where
  \<comment> \<open>where the player is, and the size of the canvas\<close>
  "place w = (p_x (player w), p_y (player w), canvas_width w, canvas_height w)"

definition inBounds :: "world \<Rightarrow> bool" where
  \<comment> \<open>the player is in the rectangle [30, width - 30] x [30, height - 30]\<close>
  "inBounds w =
     (30 \<le> p_x (player w) \<and> p_x (player w) \<le> canvas_width w - 30 \<and>
      30 \<le> p_y (player w) \<and> p_y (player w) \<le> canvas_height w - 30)"

definition hpOk :: "world \<Rightarrow> bool" where
  \<comment> \<open>the hit points are within the fixed maximum\<close>
  "hpOk w = (p_maxHp (player w) = 100 \<and> p_hp (player w) \<le> 100)"

inductive reachable :: "world \<Rightarrow> bool" where
  \<comment> \<open>the worlds a session can be in: after \<open>startGame\<close> from anything, after a frame, after a
      click on one of the offered upgrades, after a key event, and after queued
      \<^verbatim>\<open>setTimeout\<close> callbacks have changed the hit points of enemies (taken generously: any
      change of enemy hit points)\<close>
  start: "reachable (startGame w)"
| tick: "reachable w \<Longrightarrow> reachable (gameLoop w)"
| choose: "reachable w \<Longrightarrow> u \<in> set (upgradeChoices w) \<Longrightarrow> reachable (selectUpgrade (u_key u) w)"
| input: "reachable w \<Longrightarrow> reachable (w\<lparr>keys := ks\<rparr>)"
| deferred: "reachable w \<Longrightarrow> length hs = length (enemies w) \<Longrightarrow>
     reachable (w\<lparr>enemies := map (\<lambda>(e, h). e\<lparr>e_hp := h\<rparr>) (zip (enemies w) hs)\<rparr>)"

section \<open>Properties\<close>

subsection \<open>parseInt reads back what Number-to-string wrote\<close>

lemma rand_val_half: "rand_val half = 1/2"
  by (simp add: half_def Rand_inverse)

lemma digitValue_digitChar: "d < 10 \<Longrightarrow> digitValue (digitChar d) = Some d"
proof -
  assume "d < 10"
  then have "d \<in> {0,1,2,3,4,5,6,7,8,9}" by auto
  then show ?thesis
    by (auto simp: digitValue_def digitChar_def)
qed

lemma radixDigit_digitChar: "d < 10 \<Longrightarrow> radixDigit 10 (digitChar d)"
  by (simp add: radixDigit_def digitValue_digitChar)

lemma digitChar_plain:
  "d < 10 \<Longrightarrow> \<not> isWhiteSpace (digitChar d) \<and> digitChar d \<noteq> CHR ''-'' \<and> digitChar d \<noteq> CHR ''+''
     \<and> digitChar d \<noteq> CHR ''x'' \<and> digitChar d \<noteq> CHR ''X''"
proof -
  assume "d < 10"
  then have "d \<in> {0,1,2,3,4,5,6,7,8,9}" by auto
  then show ?thesis
    by (auto simp: isWhiteSpace_def digitChar_def)
qed

lemma digits_nonempty: "digits n \<noteq> []"
  by (subst digits.simps) simp


lemma digits_small: "n < 10 \<Longrightarrow> digits n = [digitChar n]"
  by (subst digits.simps) simp

lemma digits_large: "\<not> n < 10 \<Longrightarrow> digits n = digits (n div 10) @ [digitChar (n mod 10)]"
  by (subst digits.simps) simp

lemma digits_all: "c \<in> set (digits n) \<Longrightarrow> \<exists>d < 10. c = digitChar d"
proof (induction n arbitrary: c rule: digits.induct)
  case (1 n)
  show ?case
  proof (cases "n < 10")
    case True
    with "1.prems" show ?thesis by (auto simp: digits_small)
  next
    case False
    from "1.prems" have "c \<in> set (digits (n div 10)) \<or> c = digitChar (n mod 10)"
      using False by (auto simp add: digits_large)
    then show ?thesis
    proof
      assume "c \<in> set (digits (n div 10))"
      with "1.IH" False show ?thesis by blast
    next
      assume "c = digitChar (n mod 10)"
      moreover have "n mod 10 < 10" by simp
      ultimately show ?thesis by blast
    qed
  qed
qed

lemma digitsValue_snoc:
  "digitsValue R (Z @ [c]) = digitsValue R Z * R + (case digitValue c of None \<Rightarrow> 0 | Some d \<Rightarrow> d)"
  by (simp add: digitsValue_def)

lemma digitsValue_digits: "digitsValue 10 (digits n) = n"
proof (induction n rule: digits.induct)
  case (1 n)
  show ?case
  proof (cases "n < 10")
    case True
    then show ?thesis
      by (simp add: digits_small digitsValue_def digitValue_digitChar)
  next
    case False
    have "digitsValue 10 (digits n) = digitsValue 10 (digits (n div 10)) * 10 + n mod 10"
      using False by (simp add: digits_large digitsValue_snoc digitValue_digitChar)
    with "1.IH" False show ?thesis by simp
  qed
qed

lemma takeWhile_digits: "takeWhile (radixDigit 10) (digits n) = digits n"
proof -
  have "\<forall>c \<in> set (digits n). radixDigit 10 c"
    using digits_all radixDigit_digitChar by blast
  then show ?thesis by (simp add: takeWhile_eq_all_conv)
qed


lemma digits_plain:
  "c \<in> set (digits n) \<Longrightarrow>
     \<not> isWhiteSpace c \<and> c \<noteq> CHR ''-'' \<and> c \<noteq> CHR ''+'' \<and> c \<noteq> CHR ''x'' \<and> c \<noteq> CHR ''X''"
proof -
  assume "c \<in> set (digits n)"
  then obtain d where "d < 10" "c = digitChar d" using digits_all by auto
  with digitChar_plain [of d] show ?thesis by simp
qed

lemma no_x_no_prefix:
  "\<forall>c \<in> set xs. c \<noteq> CHR ''x'' \<and> c \<noteq> CHR ''X'' \<Longrightarrow> \<not> hexPrefix xs"
  by (cases xs rule: hexPrefix.cases) auto

lemma digits_no_prefix: "\<not> hexPrefix (digits n)"
proof (rule no_x_no_prefix, rule ballI)
  fix c assume "c \<in> set (digits n)"
  then show "c \<noteq> CHR ''x'' \<and> c \<noteq> CHR ''X''" using digits_plain [of c n] by simp
qed

lemma dropWhile_none: "xs \<noteq> [] \<Longrightarrow> \<not> P (hd xs) \<Longrightarrow> dropWhile P xs = xs"
  by (cases xs) auto

lemma parseInt_unsigned:
  assumes "S \<noteq> []" "\<not> isWhiteSpace (hd S)" "hd S \<noteq> CHR ''-''" "hd S \<noteq> CHR ''+''"
    and "\<not> hexPrefix S" and tw: "takeWhile (radixDigit 10) S = S"
  shows "parseInt S = Some (int (digitsValue 10 S))"
proof -
  have ws: "dropWhile isWhiteSpace S = S"
    using assms(1,2) by (rule dropWhile_none)
  show ?thesis
    unfolding parseInt_def ws Let_def
    using assms(1,3,4,5) by (simp add: tw)
qed

lemma parseInt_negative:
  assumes "S \<noteq> []" "\<not> hexPrefix S" and tw: "takeWhile (radixDigit 10) S = S"
  shows "parseInt (CHR ''-'' # S) = Some (- int (digitsValue 10 S))"
proof -
  have ws: "dropWhile isWhiteSpace (CHR ''-'' # S) = CHR ''-'' # S"
    by (simp add: isWhiteSpace_def)
  show ?thesis
    unfolding parseInt_def ws Let_def
    using assms(1,2) by (simp add: tw)
qed

lemma digits_hd: "digits n \<noteq> [] \<and> \<not> isWhiteSpace (hd (digits n)) \<and> hd (digits n) \<noteq> CHR ''-''
   \<and> hd (digits n) \<noteq> CHR ''+''"
proof -
  have "hd (digits n) \<in> set (digits n)" using digits_nonempty by (rule hd_in_set)
  then show ?thesis using digits_plain [of "hd (digits n)" n] digits_nonempty [of n] by simp
qed

lemma parseInt_digits: "parseInt (digits n) = Some (int n)"
  using parseInt_unsigned [of "digits n"] digits_hd [of n] digits_no_prefix [of n]
  by (simp only: takeWhile_digits digitsValue_digits simp_thms)

lemma parseInt_minus_digits: "parseInt (CHR ''-'' # digits n) = Some (- int n)"
  using parseInt_negative [of "digits n"] digits_nonempty [of n] digits_no_prefix [of n]
  by (simp only: takeWhile_digits digitsValue_digits simp_thms)

lemma parseInt_Number_toString: "parseInt (Number_toString k) = Some k"
proof (cases "k < 0")
  case True
  then show ?thesis by (simp add: Number_toString_def parseInt_minus_digits)
next
  case False
  then show ?thesis by (simp add: Number_toString_def parseInt_digits)
qed

lemma Number_toString_nonempty: "Number_toString k \<noteq> []"
  by (simp add: Number_toString_def digits_nonempty)

subsection \<open>The level-up modal leaves the player alone\<close>

lemma Math_random_frame:
  "snd (Math_random w) = w\<lparr>rng_pos := Suc (rng_pos w)\<rparr>"
  by (simp add: Math_random_def)

lemma selectUpgrades_step:
  "length sel < 2 \<Longrightarrow> av \<noteq> [] \<Longrightarrow>
     selectUpgrades sel av w =
       selectUpgrades (sel @ [av ! nat \<lfloor>rand_val (rng w (rng_pos w)) * real (length av)\<rfloor>])
         (splice1 (nat \<lfloor>rand_val (rng w (rng_pos w)) * real (length av)\<rfloor>) av)
         (w\<lparr>rng_pos := Suc (rng_pos w)\<rparr>)"
  by (subst selectUpgrades.simps) (simp add: Math_random_def Let_def)

lemma selectUpgrades_stop:
  "\<not> (length sel < 2 \<and> av \<noteq> []) \<Longrightarrow> selectUpgrades sel av w = (sel, w)"
  by (subst selectUpgrades.simps) auto

lemma selectUpgrades_frame:
  "\<exists>n. snd (selectUpgrades sel av w) = w\<lparr>rng_pos := n\<rparr>"
proof (induction "2 - length sel" arbitrary: sel av w)
  case 0
  then have "selectUpgrades sel av w = (sel, w)" by (intro selectUpgrades_stop) simp
  then have "snd (selectUpgrades sel av w) = w\<lparr>rng_pos := rng_pos w\<rparr>" by simp
  then show ?case by blast
next
  case (Suc m)
  show ?case
  proof (cases "av = []")
    case True
    then have "selectUpgrades sel av w = (sel, w)" by (intro selectUpgrades_stop) simp
    then have "snd (selectUpgrades sel av w) = w\<lparr>rng_pos := rng_pos w\<rparr>" by simp
    then show ?thesis by blast
  next
    case False
    let ?i = "nat \<lfloor>rand_val (rng w (rng_pos w)) * real (length av)\<rfloor>"
    let ?w = "w\<lparr>rng_pos := Suc (rng_pos w)\<rparr>"
    from Suc.hyps have lt: "length sel < 2" by simp
    have step: "selectUpgrades sel av w = selectUpgrades (sel @ [av ! ?i]) (splice1 ?i av) ?w"
      using lt False by (rule selectUpgrades_step)
    from Suc.hyps have "m = 2 - length (sel @ [av ! ?i])" by simp
    from Suc.hyps(1) [OF this, of "splice1 ?i av" ?w]
    obtain n where "snd (selectUpgrades (sel @ [av ! ?i]) (splice1 ?i av) ?w) = ?w\<lparr>rng_pos := n\<rparr>"
      by blast
    with step have "snd (selectUpgrades sel av w) = w\<lparr>rng_pos := n\<rparr>" by simp
    then show ?thesis by blast
  qed
qed

lemma showLevelUpModal_frame:
  "player (showLevelUpModal w) = player w \<and> paused (showLevelUpModal w) \<and>
   abilities (showLevelUpModal w) = abilities w"
proof -
  obtain n where "snd (selectUpgrades [] (availableUpgrades (abilities w)) (w\<lparr>paused := True\<rparr>))
     = w\<lparr>paused := True, rng_pos := n\<rparr>"
    using selectUpgrades_frame by blast
  then show ?thesis
    by (simp add: showLevelUpModal_def Let_def case_prod_beta)
qed

lemma getHighScore_gameOver_flag: "getHighScore (w\<lparr>gameOver_flag := b\<rparr>) = getHighScore w"
  by (simp add: getHighScore_def)

lemma getHighScore_stored:
  "getHighScore (w\<lparr>localStorage := (localStorage w)(''catto_highscore'' \<mapsto> Number_toString k)\<rparr>) = Some k"
  using Number_toString_nonempty [of k]
  by (simp add: getHighScore_def parseInt_Number_toString)

subsection \<open>Level-up\<close>

text \<open>
  Claim C3, as the code has it. A level-up adds one to the level, subtracts the old
  \<open>xpNext\<close> from \<open>xp\<close> (the remainder is carried), replaces \<open>xpNext\<close> by
  \<open>floor(xpNext * 1.12)\<close> when the new level is at most 5, by \<open>floor(xpNext * 1.15)\<close> when
  the new level is 6 to 10 and by \<open>floor(xpNext * 1.18)\<close> beyond, heals 20 hit points
  capped at 100, and sets the pause flag.
\<close>

theorem levelUp_effect:
  "p_level (player (levelUp w)) = p_level (player w) + 1 \<and>
   p_xp (player (levelUp w)) = p_xp (player w) - p_xpNext (player w) \<and>
   p_xpNext (player (levelUp w)) =
     (if p_level (player w) + 1 \<le> 5 then \<lfloor>real_of_int (p_xpNext (player w)) * 1.12\<rfloor>
      else if p_level (player w) + 1 \<le> 10 then \<lfloor>real_of_int (p_xpNext (player w)) * 1.15\<rfloor>
      else \<lfloor>real_of_int (p_xpNext (player w)) * 1.18\<rfloor>) \<and>
   p_hp (player (levelUp w)) = min 100 (p_hp (player w) + 20) \<and>
   paused (levelUp w)"
  by (simp add: levelUp_def Let_def showLevelUpModal_frame)

theorem levelUp_effect_witness:
  "p_level (player (levelUp world_level7)) = 8 \<and> p_xp (player (levelUp world_level7)) = 0 \<and>
   p_xpNext (player (levelUp world_level7)) = 20 \<and>
   p_hp (player (levelUp world_level7)) = 100 \<and> paused (levelUp world_level7)"
  using levelUp_effect [of world_level7]
  by (simp add: world_level7_def world0_def)

text \<open>
  The claim as written asks for \<open>floor(xpNext * 1.18)\<close> at the new levels 6 to 10. From
  level 7 with \<open>xpNext = 18\<close> the code reaches level 8 with \<open>xpNext = floor(20.7) = 20\<close>,
  not \<open>floor(21.24) = 21\<close>.
\<close>

theorem levelUp_mid_game_not_118:
  "p_level (player (levelUp world_level7)) = 8 \<and>
   p_xpNext (player (levelUp world_level7)) = 20 \<and>
   \<lfloor>real_of_int (p_xpNext (player world_level7)) * 1.18\<rfloor> = 21"
  by (simp add: levelUp_def Let_def showLevelUpModal_frame world_level7_def world0_def)

subsection \<open>High score\<close>

text \<open>
  On the items the game itself writes the round trip holds: with nothing stored, or with
  the digits of an earlier score stored, the high score read back after \<open>gameOver\<close> is the
  maximum of the one read before and the kill count, and the item is overwritten exactly
  when the kill count is strictly greater.
\<close>

lemma getHighScore_absent:
  "localStorage w ''catto_highscore'' = None \<Longrightarrow> getHighScore w = Some 0"
  by (simp add: getHighScore_def parseInt_def isWhiteSpace_def radixDigit_def digitValue_def
      digitsValue_def)

lemma getHighScore_written:
  "localStorage w ''catto_highscore'' = Some (Number_toString h) \<Longrightarrow> getHighScore w = Some h"
  using Number_toString_nonempty [of h]
  by (simp add: getHighScore_def parseInt_Number_toString)

lemma gameOver_parsed:
  assumes "getHighScore w = Some h"
  shows "getHighScore (gameOver w) = Some (max h (kills w)) \<and>
         localStorage (gameOver w) =
           (if h < kills w
            then (localStorage w)(''catto_highscore'' \<mapsto> Number_toString (kills w))
            else localStorage w)"
proof (cases "h < kills w")
  case True
  have "getHighScore (gameOver w) = Some (kills w)"
    using assms True getHighScore_stored [of "w\<lparr>gameOver_flag := True\<rparr>" "kills w"]
    by (simp add: gameOver_def Let_def getHighScore_gameOver_flag)
  moreover have "localStorage (gameOver w) =
      (localStorage w)(''catto_highscore'' \<mapsto> Number_toString (kills w))"
    using assms True by (simp add: gameOver_def Let_def getHighScore_gameOver_flag)
  ultimately show ?thesis using True by simp
next
  case False
  then show ?thesis
    using assms by (simp add: gameOver_def Let_def getHighScore_gameOver_flag)
qed

lemma gameOver_high_score_own_writes:
  assumes "0 \<le> kills w" "kills w < 2 ^ 53"
    and "localStorage w ''catto_highscore'' = None \<and> h = 0 \<or>
         0 \<le> h \<and> h < 2 ^ 53 \<and> localStorage w ''catto_highscore'' = Some (Number_toString h)"
  shows "getHighScore w = Some h \<and>
         getHighScore (gameOver w) = Some (max h (kills w)) \<and>
         localStorage (gameOver w) =
           (if h < kills w
            then (localStorage w)(''catto_highscore'' \<mapsto> Number_toString (kills w))
            else localStorage w)"
proof -
  have "getHighScore w = Some h"
    using assms(3) getHighScore_absent [of w] getHighScore_written [of w h] by auto
  then show ?thesis using gameOver_parsed [of w h] by simp
qed

text \<open>
  Claim C7, at the failing input. With the text \<open>abc\<close> stored and seven kills, \<open>gameOver\<close>
  persists nothing: the high score read is \<open>NaN\<close>, the test \<^verbatim>\<open>finalScore > currentHighScore\<close>
  is false, the item stays \<open>abc\<close> and the high score read afterwards is still \<open>NaN\<close>, not
  the maximum of the earlier high score (0 for an invalid item, by the JSDoc of
  \<open>getHighScore\<close>) and 7.
\<close>

theorem gameOver_keeps_invalid_item:
  "kills world_abc = 7 \<and>
   localStorage world_abc ''catto_highscore'' = Some ''abc'' \<and>
   getHighScore world_abc = None \<and>
   gameOver_flag (gameOver world_abc) \<and>
   localStorage (gameOver world_abc) ''catto_highscore'' = Some ''abc'' \<and>
   getHighScore (gameOver world_abc) = None"
  by (simp add: gameOver_def Let_def getHighScore_def parseInt_def isWhiteSpace_def
      radixDigit_def digitValue_def world_abc_def world0_def)

text \<open>
  Claim C8, at the failing input. With the text \<open>abc\<close> stored, \<open>getHighScore\<close> returns
  \<open>NaN\<close>, neither 0 nor an integer; with nothing stored, or the empty text, it returns 0.
\<close>

theorem getHighScore_invalid_is_NaN:
  "getHighScore (w\<lparr>localStorage := (localStorage w)(''catto_highscore'' \<mapsto> ''abc'')\<rparr>) = None \<and>
   getHighScore (w\<lparr>localStorage := (localStorage w)(''catto_highscore'' := None)\<rparr>) = Some 0 \<and>
   getHighScore (w\<lparr>localStorage := (localStorage w)(''catto_highscore'' \<mapsto> [])\<rparr>) = Some 0"
  by (simp add: getHighScore_def parseInt_def isWhiteSpace_def radixDigit_def digitValue_def
      digitsValue_def)

subsection \<open>The paused tick\<close>

text \<open>
  Claim C9. A tick taken while the pause flag is set and the game is not over returns the
  world it was given: time, player, abilities, enemies, projectiles, orbs and particles
  are all as before.
\<close>

theorem gameLoop_paused:
  "paused w \<Longrightarrow> \<not> gameOver_flag w \<Longrightarrow> gameLoop w = w"
  by (simp add: gameLoop_def)

theorem gameLoop_paused_witness:
  "paused world_paused \<and> \<not> gameOver_flag world_paused \<and> gameLoop world_paused = world_paused"
proof -
  have h: "paused world_paused" "\<not> gameOver_flag world_paused"
    by (simp_all add: world_paused_def world0_def)
  from gameLoop_paused [OF h] h show ?thesis by simp
qed

subsection \<open>The spawn attempt\<close>

lemma selectType_frame: "\<exists>n. snd (selectType wave w) = w\<lparr>rng_pos := n\<rparr>"
proof -
  have "snd (selectType wave w) = w\<lparr>rng_pos := rng_pos w\<rparr> \<or>
        snd (selectType wave w) = w\<lparr>rng_pos := Suc (rng_pos w)\<rparr>"
    by (simp add: selectType_def Math_random_def Let_def)
  then show ?thesis by blast
qed

lemma spawnPosition_frame: "snd (spawnPosition w) = w\<lparr>rng_pos := Suc (Suc (rng_pos w))\<rparr>"
  by (simp add: spawnPosition_def Math_random_def Let_def)

lemma spawnOne_eq: "\<exists>n e. spawnOne w = w\<lparr>rng_pos := n, enemies := enemies w @ [e]\<rparr>"
proof -
  obtain ty w2 where st: "selectType (waveNumber w) w = (ty, w2)" by fastforce
  obtain n where w2: "w2 = w\<lparr>rng_pos := n\<rparr>"
    using selectType_frame [of "waveNumber w" w] st by auto
  obtain x y w3 where sp: "spawnPosition w2 = ((x, y), w3)" by (metis surj_pair)
  have w3: "w3 = w\<lparr>rng_pos := Suc (Suc n)\<rparr>"
    using spawnPosition_frame [of w2] sp w2 by simp
  have "spawnOne w = w\<lparr>rng_pos := Suc (Suc n),
      enemies := enemies w @ [newEnemy ty (waveNumber w) (p_level (player w)) x y]\<rparr>"
    by (simp add: spawnOne_def st sp w3)
  then show ?thesis by blast
qed

lemma spawnEnemies_cases:
  "(\<exists>n. spawnEnemies w = w\<lparr>rng_pos := n\<rparr>) \<or>
   (int (length (enemies w)) < maxEnemies w \<and>
    (\<exists>n e. spawnEnemies w = w\<lparr>rng_pos := n, enemies := enemies w @ [e]\<rparr>))"
proof (cases "int (length (enemies w)) \<ge> maxEnemies w")
  case True
  then have "spawnEnemies w = w\<lparr>rng_pos := rng_pos w\<rparr>" by (simp add: spawnEnemies_def)
  then show ?thesis by blast
next
  case False
  let ?w1 = "w\<lparr>rng_pos := Suc (rng_pos w)\<rparr>"
  show ?thesis
  proof (cases "rand_val (rng w (rng_pos w)) < finalSpawnRate w")
    case True
    obtain n e where "spawnOne ?w1 = ?w1\<lparr>rng_pos := n, enemies := enemies ?w1 @ [e]\<rparr>"
      using spawnOne_eq by blast
    then have "spawnEnemies w = w\<lparr>rng_pos := n, enemies := enemies w @ [e]\<rparr>"
      using False True by (simp add: spawnEnemies_def Math_random_def)
    with False show ?thesis by auto
  next
    case r: False
    have "spawnEnemies w = ?w1"
      using False r by (simp add: spawnEnemies_def Math_random_def)
    then show ?thesis by blast
  qed
qed

lemma rand_val_low: "rand_val low = 1/100"
  by (simp add: low_def Rand_inverse)

text \<open>
  Claim C5. If the number of enemies is at most
  \<open>min(15 + 5 * floor(time / 1800) + 3 * floor(level / 3), 50)\<close> before the spawn attempt,
  it is at most that after it (time and level are not changed by the attempt), and the
  attempt adds no more than one enemy and removes none.
\<close>

theorem spawnEnemies_cap:
  "int (length (enemies w)) \<le>
      min (15 + 5 * \<lfloor>real_of_int (time w) / 1800\<rfloor> + 3 * \<lfloor>real_of_int (p_level (player w)) / 3\<rfloor>) 50 \<Longrightarrow>
   time (spawnEnemies w) = time w \<and> p_level (player (spawnEnemies w)) = p_level (player w) \<and>
   int (length (enemies (spawnEnemies w))) \<le>
      min (15 + 5 * \<lfloor>real_of_int (time w) / 1800\<rfloor> + 3 * \<lfloor>real_of_int (p_level (player w)) / 3\<rfloor>) 50 \<and>
   length (enemies w) \<le> length (enemies (spawnEnemies w)) \<and>
   length (enemies (spawnEnemies w)) \<le> length (enemies w) + 1"
proof -
  assume a: "int (length (enemies w)) \<le>
      min (15 + 5 * \<lfloor>real_of_int (time w) / 1800\<rfloor> + 3 * \<lfloor>real_of_int (p_level (player w)) / 3\<rfloor>) 50"
  have cap: "maxEnemies w =
      min (15 + 5 * \<lfloor>real_of_int (time w) / 1800\<rfloor> + 3 * \<lfloor>real_of_int (p_level (player w)) / 3\<rfloor>) 50"
    by (simp add: maxEnemies_def Let_def mult.commute)
  from spawnEnemies_cases [of w] show ?thesis
  proof
    assume "\<exists>n. spawnEnemies w = w\<lparr>rng_pos := n\<rparr>"
    then obtain n where "spawnEnemies w = w\<lparr>rng_pos := n\<rparr>" by blast
    with a show ?thesis by simp
  next
    assume "int (length (enemies w)) < maxEnemies w \<and>
      (\<exists>n e. spawnEnemies w = w\<lparr>rng_pos := n, enemies := enemies w @ [e]\<rparr>)"
    then obtain n e where lt: "int (length (enemies w)) < maxEnemies w"
      and eq: "spawnEnemies w = w\<lparr>rng_pos := n, enemies := enemies w @ [e]\<rparr>" by blast
    from lt have "int (length (enemies w @ [e])) \<le> maxEnemies w" by simp
    with eq cap show ?thesis by simp
  qed
qed

theorem spawnEnemies_cap_witness:
  "length (enemies world_spawning) = 0 \<and>
   length (enemies (spawnEnemies world_spawning)) = 1 \<and>
   int (length (enemies (spawnEnemies world_spawning))) \<le> 15"
proof -
  have f: "enemies world_spawning = []" "time world_spawning = 0"
    "p_level (player world_spawning) = 1" "rng world_spawning = (\<lambda>n. low)"
    "rng_pos world_spawning = 0"
    by (simp_all add: world_spawning_def world0_def)
  have cap: "maxEnemies world_spawning = 15"
    by (simp add: maxEnemies_def Let_def f)
  have rate: "finalSpawnRate world_spawning = 0.024"
    by (simp add: finalSpawnRate_def waveNumber_def Let_def f)
  obtain n e where "spawnOne (world_spawning\<lparr>rng_pos := Suc 0\<rparr>) =
      world_spawning\<lparr>rng_pos := Suc 0\<rparr>\<lparr>rng_pos := n,
        enemies := enemies (world_spawning\<lparr>rng_pos := Suc 0\<rparr>) @ [e]\<rparr>"
    using spawnOne_eq by blast
  then have one: "length (enemies (spawnEnemies world_spawning)) = 1"
    by (simp add: spawnEnemies_def Math_random_def cap rate f rand_val_low)
  have "int (length (enemies world_spawning)) \<le>
      min (15 + 5 * \<lfloor>real_of_int (time world_spawning) / 1800\<rfloor> +
           3 * \<lfloor>real_of_int (p_level (player world_spawning)) / 3\<rfloor>) 50"
    by (simp add: f)
  from spawnEnemies_cap [OF this] one show ?thesis by (simp add: f)
qed

subsection \<open>The player stays on the canvas\<close>

lemma place_upd:
  "place (w\<lparr>enemies := es\<rparr>) = place w"
  "place (w\<lparr>projectiles := ps\<rparr>) = place w"
  "place (w\<lparr>xpOrbs := os\<rparr>) = place w"
  "place (w\<lparr>particles := pts\<rparr>) = place w"
  "place (w\<lparr>timers := ts\<rparr>) = place w"
  "place (w\<lparr>kills := k\<rparr>) = place w"
  "place (w\<lparr>time := t\<rparr>) = place w"
  "place (w\<lparr>paused := b\<rparr>) = place w"
  "place (w\<lparr>gameOver_flag := b\<rparr>) = place w"
  "place (w\<lparr>abilities := ab\<rparr>) = place w"
  "place (w\<lparr>localStorage := ls\<rparr>) = place w"
  "place (w\<lparr>rng_pos := n\<rparr>) = place w"
  "place (w\<lparr>upgradeChoices := sel\<rparr>) = place w"
  by (simp_all add: place_def)

lemma place_player:
  "p_x p = p_x (player w) \<Longrightarrow> p_y p = p_y (player w) \<Longrightarrow> place (w\<lparr>player := p\<rparr>) = place w"
  by (simp add: place_def)

lemma forEach_from_keeps:
  assumes "\<And>a k w. g (f a k w) = g w"
  shows "g (forEach_from arr f k len w) = g w"
proof (induction "len - k" arbitrary: k w)
  case 0
  then show ?case by (subst forEach_from.simps) simp
next
  case (Suc m)
  then have lt: "k < len" and m: "m = len - Suc k" by simp_all
  have "forEach_from arr f k len w =
      forEach_from arr f (Suc k) len (if k < length (arr w) then f (arr w ! k) k w else w)"
    using lt by (subst forEach_from.simps) simp
  then show ?case using Suc.hyps(1) [OF m] assms by simp
qed

lemma forEach_keeps:
  assumes "\<And>a k w. g (f a k w) = g w"
  shows "g (forEach arr f w) = g w"
  unfolding forEach_def using assms by (rule forEach_from_keeps)

lemma place_gameOver: "place (gameOver w) = place w"
  by (simp add: gameOver_def Let_def place_upd)

lemma place_dropXP: "place (dropXP x y v w) = place w"
  by (simp add: dropXP_def Math_random_def Let_def place_upd)


lemma showLevelUpModal_eq:
  "\<exists>n sel. showLevelUpModal w = w\<lparr>paused := True, rng_pos := n, upgradeChoices := sel\<rparr>"
proof -
  obtain n where "snd (selectUpgrades [] (availableUpgrades (abilities w)) (w\<lparr>paused := True\<rparr>))
     = w\<lparr>paused := True, rng_pos := n\<rparr>"
    using selectUpgrades_frame by blast
  then have "showLevelUpModal w = w\<lparr>paused := True, rng_pos := n,
      upgradeChoices := fst (selectUpgrades [] (availableUpgrades (abilities w)) (w\<lparr>paused := True\<rparr>))\<rparr>"
    by (simp add: showLevelUpModal_def Let_def case_prod_beta)
  then show ?thesis by blast
qed

lemma place_showLevelUpModal: "place (showLevelUpModal w) = place w"
proof -
  obtain n sel where "showLevelUpModal w = w\<lparr>paused := True, rng_pos := n, upgradeChoices := sel\<rparr>"
    using showLevelUpModal_eq by blast
  then show ?thesis by (simp add: place_upd)
qed

lemma place_levelUp: "place (levelUp w) = place w"
  by (simp add: levelUp_def Let_def place_showLevelUpModal place_player)

lemma place_contactHit: "place (contactHit enemy index w) = place w"
  by (simp add: contactHit_def Let_def place_gameOver place_upd place_player)

lemma place_removeDead: "place (removeDead enemy index w) = place w"
  by (simp add: removeDead_def Let_def place_dropXP place_upd)

lemma place_enemyStep: "place (enemyStep enemy index w) = place w"
  by (simp add: enemyStep_def Let_def place_contactHit place_removeDead place_upd)

lemma place_updateEnemies: "place (updateEnemies w) = place w"
proof -
  have "place (forEach enemies enemyStep w) = place w"
    by (rule forEach_keeps) (rule place_enemyStep)
  then show ?thesis
    by (simp add: updateEnemies_def Let_def place_player split: option.splits)
qed

lemma place_projHit: "place (projHit proj projIndex enemy enemyIndex w) = place w"
  by (simp add: projHit_def Let_def place_upd)

lemma place_projStep: "place (projStep proj projIndex w) = place w"
proof -
  have "place (forEach enemies (projHit p i) w') = place w'" for p i w'
    by (rule forEach_keeps) (rule place_projHit)
  then show ?thesis
    by (simp add: projStep_def Let_def place_upd)
qed

lemma place_updateProjectiles: "place (updateProjectiles w) = place w"
  unfolding updateProjectiles_def by (rule forEach_keeps) (rule place_projStep)

lemma place_collectOrb: "place (collectOrb orb index w) = place w"
  by (simp add: collectOrb_def Let_def place_levelUp place_upd place_player)

lemma place_orbStep: "place (orbStep orb index w) = place w"
  by (simp add: orbStep_def Let_def place_collectOrb place_upd)

lemma place_updateXP: "place (updateXP w) = place w"
  unfolding updateXP_def by (rule forEach_keeps) (rule place_orbStep)

lemma place_updateParticles: "place (updateParticles w) = place w"
  unfolding updateParticles_def
  by (rule forEach_keeps) (simp add: particleStep_def Let_def place_upd)


lemma place_spawnEnemies: "place (spawnEnemies w) = place w"
  using spawnEnemies_cases [of w] by (auto simp: place_upd)

lemma place_fireWhiskerWhip: "place (fireWhiskerWhip w) = place w"
  by (simp add: fireWhiskerWhip_def Let_def place_upd)

lemma place_fireHairball_from: "place (fireHairball_from n w) = place w"
  by (induction n arbitrary: w) (simp_all add: Math_random_def Let_def place_upd)

lemma place_fireHairball: "place (fireHairball w) = place w"
  by (simp add: fireHairball_def Let_def place_fireHairball_from)

lemma place_pawSlam_fire: "place (pawSlam_fire w) = place w"
  by (simp add: pawSlam_fire_def Let_def place_upd)

lemma place_catNap_fire: "place (catNap_fire w) = place w"
  by (simp add: catNap_fire_def Let_def place_player)

lemma place_set_cooldown: "place (set_cooldown k c w) = place w"
  by (simp add: set_cooldown_def place_upd)

lemma place_updateAbilities: "place (updateAbilities w) = place w"
  by (simp add: updateAbilities_def Let_def place_upd place_set_cooldown place_catNap_fire
      place_pawSlam_fire place_fireHairball place_fireWhiskerWhip)

lemma place_after_updatePlayer:
  "\<not> gameOver_flag w \<Longrightarrow> \<not> paused w \<Longrightarrow>
     place (gameLoop w) = place (updatePlayer (w\<lparr>time := time w + 1\<rparr>))"
  by (simp add: gameLoop_def Let_def place_updateParticles place_updateXP
      place_updateProjectiles place_updateEnemies place_spawnEnemies place_updateAbilities)

lemma inBounds_place: "place w' = place w \<Longrightarrow> inBounds w' = inBounds w"
  by (simp add: place_def inBounds_def)

lemma canvas_updatePlayer:
  "canvas_width (updatePlayer w) = canvas_width w \<and> canvas_height (updatePlayer w) = canvas_height w"
  by (simp add: updatePlayer_def Let_def)

lemma movePlayer_x:
  "p_x (movePlayer w) =
     p_x (player w)
       - (if keys w ''a'' = Some True \<or> keys w ''arrowleft'' = Some True then p_speed (player w) else 0)
       + (if keys w ''d'' = Some True \<or> keys w ''arrowright'' = Some True then p_speed (player w) else 0)"
  by (simp add: movePlayer_def pressed_def Let_def)

lemma movePlayer_y:
  "p_y (movePlayer w) =
     p_y (player w)
       - (if keys w ''w'' = Some True \<or> keys w ''arrowup'' = Some True then p_speed (player w) else 0)
       + (if keys w ''s'' = Some True \<or> keys w ''arrowdown'' = Some True then p_speed (player w) else 0)"
  by (simp add: movePlayer_def pressed_def Let_def)

text \<open>
  Claim C10. Whatever keys are held, \<open>updatePlayer\<close> moves the player by its speed along
  each held direction and then clamps: the new x is \<open>max(30, min(width - 30, x'))\<close> for
  the moved x', and the same for y with the height. On a canvas of at least 60 by 60
  pixels (the game's is 1200 by 800) the player is therefore in the rectangle
  [30, width - 30] x [30, height - 30] after \<open>updatePlayer\<close>, and so after every tick that
  runs the updates, since nothing after \<open>updatePlayer\<close> in the tick moves the player or
  resizes the canvas; a paused or finished tick changes nothing, so a player that is in
  bounds stays in bounds through any tick.
\<close>

theorem player_stays_in_bounds:
  assumes "60 \<le> canvas_width w" "60 \<le> canvas_height w"
  shows "p_x (player (updatePlayer w)) =
           max 30 (min (canvas_width w - 30)
             (p_x (player w)
                - (if keys w ''a'' = Some True \<or> keys w ''arrowleft'' = Some True then p_speed (player w) else 0)
                + (if keys w ''d'' = Some True \<or> keys w ''arrowright'' = Some True then p_speed (player w) else 0))) \<and>
         p_y (player (updatePlayer w)) =
           max 30 (min (canvas_height w - 30)
             (p_y (player w)
                - (if keys w ''w'' = Some True \<or> keys w ''arrowup'' = Some True then p_speed (player w) else 0)
                + (if keys w ''s'' = Some True \<or> keys w ''arrowdown'' = Some True then p_speed (player w) else 0))) \<and>
         inBounds (updatePlayer w) \<and>
         (\<not> gameOver_flag w \<and> \<not> paused w \<longrightarrow> inBounds (gameLoop w)) \<and>
         (inBounds w \<longrightarrow> inBounds (gameLoop w)) \<and>
         canvas_width (gameLoop w) = canvas_width w \<and> canvas_height (gameLoop w) = canvas_height w"
proof -
  have clamp: "p_x (player (updatePlayer w)) =
           max 30 (min (canvas_width w - 30)
             (p_x (player w)
                - (if keys w ''a'' = Some True \<or> keys w ''arrowleft'' = Some True then p_speed (player w) else 0)
                + (if keys w ''d'' = Some True \<or> keys w ''arrowright'' = Some True then p_speed (player w) else 0))) \<and>
         p_y (player (updatePlayer w)) =
           max 30 (min (canvas_height w - 30)
             (p_y (player w)
                - (if keys w ''w'' = Some True \<or> keys w ''arrowup'' = Some True then p_speed (player w) else 0)
                + (if keys w ''s'' = Some True \<or> keys w ''arrowdown'' = Some True then p_speed (player w) else 0)))"
    unfolding movePlayer_x [symmetric] movePlayer_y [symmetric]
    by (simp add: updatePlayer_def Let_def)
  have up: "inBounds (updatePlayer v)" if "60 \<le> canvas_width v" "60 \<le> canvas_height v" for v
    using that by (simp add: inBounds_def updatePlayer_def Let_def)
  have run: "inBounds (gameLoop w)" if "\<not> gameOver_flag w" "\<not> paused w"
  proof -
    have "inBounds (updatePlayer (w\<lparr>time := time w + 1\<rparr>))"
      using assms by (intro up) simp_all
    then show ?thesis
      using inBounds_place [OF place_after_updatePlayer [OF that]] by simp
  qed
  have still: "gameLoop w = w" if "gameOver_flag w \<or> paused w"
    using that by (auto simp: gameLoop_def)
  have canvas: "canvas_width (gameLoop w) = canvas_width w \<and> canvas_height (gameLoop w) = canvas_height w"
  proof (cases "gameOver_flag w \<or> paused w")
    case True
    then show ?thesis using still by simp
  next
    case False
    then have "place (gameLoop w) = place (updatePlayer (w\<lparr>time := time w + 1\<rparr>))"
      by (intro place_after_updatePlayer) simp_all
    then show ?thesis by (simp add: place_def canvas_updatePlayer)
  qed
  show ?thesis
  proof (cases "gameOver_flag w \<or> paused w")
    case True
    with still have "gameLoop w = w" by simp
    with True up [OF assms] have "inBounds (updatePlayer w) \<and>
         (\<not> gameOver_flag w \<and> \<not> paused w \<longrightarrow> inBounds (gameLoop w)) \<and>
         (inBounds w \<longrightarrow> inBounds (gameLoop w)) \<and>
         canvas_width (gameLoop w) = canvas_width w \<and> canvas_height (gameLoop w) = canvas_height w"
      by auto
    then show ?thesis
      by (rule conjI [OF conjunct1 [OF clamp] conjI [OF conjunct2 [OF clamp]]])
  next
    case False
    with run have "inBounds (gameLoop w)" by simp
    with False up [OF assms] canvas have "inBounds (updatePlayer w) \<and>
         (\<not> gameOver_flag w \<and> \<not> paused w \<longrightarrow> inBounds (gameLoop w)) \<and>
         (inBounds w \<longrightarrow> inBounds (gameLoop w)) \<and>
         canvas_width (gameLoop w) = canvas_width w \<and> canvas_height (gameLoop w) = canvas_height w"
      by simp
    then show ?thesis
      by (rule conjI [OF conjunct1 [OF clamp] conjI [OF conjunct2 [OF clamp]]])
  qed
qed

theorem player_stays_in_bounds_witness:
  "60 \<le> canvas_width world_at_edge \<and> 60 \<le> canvas_height world_at_edge \<and>
   p_x (player world_at_edge) = 31 \<and> p_y (player world_at_edge) = 400 \<and>
   p_x (player (updatePlayer world_at_edge)) = 30 \<and>
   p_y (player (updatePlayer world_at_edge)) = 400 \<and>
   inBounds (updatePlayer world_at_edge) \<and> inBounds (gameLoop world_at_edge)"
proof -
  have c: "60 \<le> canvas_width world_at_edge" "60 \<le> canvas_height world_at_edge"
    by (simp_all add: world_at_edge_def world0_def)
  have r: "\<not> gameOver_flag world_at_edge" "\<not> paused world_at_edge"
    by (simp_all add: world_at_edge_def world0_def)
  have f: "p_x (player world_at_edge) = 31" "p_y (player world_at_edge) = 400"
    "p_speed (player world_at_edge) = 3" "canvas_width world_at_edge = 1200"
    "canvas_height world_at_edge = 800"
    "keys world_at_edge ''a'' = Some True" "keys world_at_edge ''arrowleft'' \<noteq> Some True"
    "keys world_at_edge ''d'' \<noteq> Some True" "keys world_at_edge ''arrowright'' \<noteq> Some True"
    "keys world_at_edge ''w'' \<noteq> Some True" "keys world_at_edge ''arrowup'' \<noteq> Some True"
    "keys world_at_edge ''s'' \<noteq> Some True" "keys world_at_edge ''arrowdown'' \<noteq> Some True"
    by (simp_all add: world_at_edge_def world0_def)
  from player_stays_in_bounds [OF c] r c f show ?thesis by simp
qed

subsection \<open>Hit points stay within the cap\<close>

lemma hpOk_upd:
  "hpOk (w\<lparr>enemies := es\<rparr>) = hpOk w"
  "hpOk (w\<lparr>projectiles := ps\<rparr>) = hpOk w"
  "hpOk (w\<lparr>xpOrbs := os\<rparr>) = hpOk w"
  "hpOk (w\<lparr>particles := pts\<rparr>) = hpOk w"
  "hpOk (w\<lparr>timers := ts\<rparr>) = hpOk w"
  "hpOk (w\<lparr>kills := k\<rparr>) = hpOk w"
  "hpOk (w\<lparr>time := t\<rparr>) = hpOk w"
  "hpOk (w\<lparr>paused := b\<rparr>) = hpOk w"
  "hpOk (w\<lparr>gameOver_flag := b\<rparr>) = hpOk w"
  "hpOk (w\<lparr>abilities := ab\<rparr>) = hpOk w"
  "hpOk (w\<lparr>localStorage := ls\<rparr>) = hpOk w"
  "hpOk (w\<lparr>rng_pos := n\<rparr>) = hpOk w"
  "hpOk (w\<lparr>upgradeChoices := sel\<rparr>) = hpOk w"
  "hpOk (w\<lparr>keys := ks\<rparr>) = hpOk w"
  by (simp_all add: hpOk_def)

lemma hpOk_player: "hpOk (w\<lparr>player := p\<rparr>) = (p_maxHp p = 100 \<and> p_hp p \<le> 100)"
  by (simp add: hpOk_def)

lemma forEach_from_inv:
  assumes "\<And>a k w. P w \<Longrightarrow> P (f a k w)" and "P w"
  shows "P (forEach_from arr f k len w)"
  using assms(2)
proof (induction "len - k" arbitrary: k w)
  case 0
  then show ?case by (subst forEach_from.simps) simp
next
  case (Suc m)
  then have lt: "k < len" and m: "m = len - Suc k" by simp_all
  have eq: "forEach_from arr f k len w =
      forEach_from arr f (Suc k) len (if k < length (arr w) then f (arr w ! k) k w else w)"
    using lt by (subst forEach_from.simps) simp
  have "P (if k < length (arr w) then f (arr w ! k) k w else w)"
    using Suc.prems assms(1) by simp
  from Suc.hyps(1) [OF m this] show ?case unfolding eq .
qed

lemma forEach_inv:
  assumes "\<And>a k w. P w \<Longrightarrow> P (f a k w)" and "P w"
  shows "P (forEach arr f w)"
  unfolding forEach_def using assms by (rule forEach_from_inv)

lemma hpOk_gameOver: "hpOk (gameOver w) = hpOk w"
  by (simp add: gameOver_def Let_def hpOk_upd)

lemma hpOk_dropXP: "hpOk (dropXP x y v w) = hpOk w"
  by (simp add: dropXP_def Math_random_def Let_def hpOk_upd)

lemma hpOk_showLevelUpModal: "hpOk (showLevelUpModal w) = hpOk w"
proof -
  obtain n sel where "showLevelUpModal w = w\<lparr>paused := True, rng_pos := n, upgradeChoices := sel\<rparr>"
    using showLevelUpModal_eq by blast
  then show ?thesis by (simp add: hpOk_upd)
qed

lemma hpOk_levelUp: "hpOk (levelUp w)"
  by (simp add: levelUp_def Let_def hpOk_showLevelUpModal hpOk_player)

lemma hpOk_contactHit: "hpOk w \<Longrightarrow> hpOk (contactHit enemy index w)"
proof -
  assume ok: "hpOk w"
  have hit: "hpOk (w\<lparr>player := (player w)\<lparr>p_hp := p_hp (player w) - real_of_int (max 1 z),
                                             p_invulnerable := Some 60\<rparr>,
                      enemies := es\<rparr>)" for z es
  proof -
    have "0 \<le> real_of_int (max 1 z)" by simp
    with ok show ?thesis unfolding hpOk_def by simp
  qed
  show ?thesis
    by (simp add: contactHit_def Let_def hpOk_gameOver hit)
qed

lemma hpOk_removeDead: "hpOk (removeDead enemy index w) = hpOk w"
  by (simp add: removeDead_def Let_def hpOk_dropXP hpOk_upd)

lemma hpOk_enemyStep: "hpOk w \<Longrightarrow> hpOk (enemyStep enemy index w)"
  by (simp add: enemyStep_def Let_def hpOk_contactHit hpOk_removeDead hpOk_upd)

lemma hpOk_updateEnemies: "hpOk w \<Longrightarrow> hpOk (updateEnemies w)"
proof -
  assume "hpOk w"
  then have "hpOk (forEach enemies enemyStep w)"
    by (rule forEach_inv [where P = hpOk, rotated]) (rule hpOk_enemyStep)
  then show ?thesis
    by (simp add: updateEnemies_def Let_def hpOk_player split: option.splits) (simp add: hpOk_def)
qed


lemma hpOk_projStep: "hpOk (projStep proj projIndex w) = hpOk w"
proof -
  have "hpOk (forEach enemies (projHit p i) w') = hpOk w'" for p i w'
    by (rule forEach_keeps) (simp add: projHit_def Let_def hpOk_upd)
  then show ?thesis
    by (simp add: projStep_def Let_def hpOk_upd)
qed

lemma hpOk_updateProjectiles: "hpOk (updateProjectiles w) = hpOk w"
  unfolding updateProjectiles_def by (rule forEach_keeps) (rule hpOk_projStep)

lemma hpOk_collectOrb: "hpOk w \<Longrightarrow> hpOk (collectOrb orb index w)"
  by (simp add: collectOrb_def Let_def hpOk_levelUp hpOk_upd hpOk_player) (simp add: hpOk_def)

lemma hpOk_orbStep: "hpOk w \<Longrightarrow> hpOk (orbStep orb index w)"
  by (simp add: orbStep_def Let_def hpOk_collectOrb hpOk_upd)

lemma hpOk_updateXP: "hpOk w \<Longrightarrow> hpOk (updateXP w)"
  unfolding updateXP_def by (rule forEach_inv [where P = hpOk]) (simp_all add: hpOk_orbStep)

lemma hpOk_updateParticles: "hpOk (updateParticles w) = hpOk w"
  unfolding updateParticles_def
  by (rule forEach_keeps) (simp add: particleStep_def Let_def hpOk_upd)

lemma hpOk_spawnEnemies: "hpOk (spawnEnemies w) = hpOk w"
  using spawnEnemies_cases [of w] by (auto simp: hpOk_upd)

lemma hpOk_fireHairball_from: "hpOk (fireHairball_from n w) = hpOk w"
  by (induction n arbitrary: w) (simp_all add: Math_random_def Let_def hpOk_upd)

lemma hpOk_catNap_fire: "hpOk w \<Longrightarrow> hpOk (catNap_fire w)"
  by (simp add: catNap_fire_def Let_def hpOk_player) (simp add: hpOk_def)

lemma hpOk_set_cooldown: "hpOk (set_cooldown k c w) = hpOk w"
  by (simp add: set_cooldown_def hpOk_upd)

lemma hpOk_fireWhiskerWhip: "hpOk (fireWhiskerWhip w) = hpOk w"
  by (simp add: fireWhiskerWhip_def Let_def hpOk_upd)

lemma hpOk_fireHairball: "hpOk (fireHairball w) = hpOk w"
  by (simp add: fireHairball_def Let_def hpOk_fireHairball_from)

lemma hpOk_pawSlam_fire: "hpOk (pawSlam_fire w) = hpOk w"
  by (simp add: pawSlam_fire_def Let_def hpOk_upd)

lemma hpOk_updateAbilities: "hpOk w \<Longrightarrow> hpOk (updateAbilities w)"
  by (simp add: updateAbilities_def Let_def hpOk_upd hpOk_set_cooldown hpOk_catNap_fire
      hpOk_pawSlam_fire hpOk_fireHairball hpOk_fireWhiskerWhip)

lemma movePlayer_hp:
  "p_hp (movePlayer w) = p_hp (player w) \<and> p_maxHp (movePlayer w) = p_maxHp (player w)"
  by (simp add: movePlayer_def Let_def)

lemma hpOk_updatePlayer: "hpOk (updatePlayer w) = hpOk w"
  by (simp add: updatePlayer_def Let_def hpOk_def movePlayer_hp)

lemma hpOk_gameLoop: "hpOk w \<Longrightarrow> hpOk (gameLoop w)"
  by (simp add: gameLoop_def Let_def hpOk_updateParticles hpOk_updateXP hpOk_updateProjectiles
      hpOk_updateEnemies hpOk_spawnEnemies hpOk_updateAbilities hpOk_updatePlayer hpOk_upd)

lemma hpOk_startGame: "hpOk (startGame w)"
  by (simp add: startGame_def Let_def) (rule hpOk_gameLoop, simp add: hpOk_def)

lemma hpOk_selectUpgrade: "hpOk (selectUpgrade k w) = hpOk w"
  by (simp add: selectUpgrade_def Let_def hpOk_upd)

lemma reachable_hpOk: "reachable w \<Longrightarrow> hpOk w"
proof (induction rule: reachable.induct)
  case (start w)
  show ?case by (simp add: hpOk_startGame)
next
  case (tick w)
  then show ?case by (simp add: hpOk_gameLoop)
next
  case (choose w u)
  then show ?case by (simp add: hpOk_selectUpgrade)
next
  case (input w ks)
  then show ?case by (simp add: hpOk_upd)
next
  case (deferred w hs)
  then show ?case by (simp add: hpOk_upd)
qed

text \<open>
  Claim C6. In every reachable state the hit points are at most 100 and \<open>maxHp\<close> is 100,
  and after either heal (the Cat Nap heal of 20, or 30 from level 3, and the level-up heal
  of 20, each capped by \<open>min(100, \<dots>)\<close>) \<open>hp \<le> maxHp = 100\<close> holds.
\<close>

theorem heal_capped:
  "reachable w \<Longrightarrow>
     p_hp (player w) \<le> 100 \<and> p_maxHp (player w) = 100 \<and>
     p_hp (player (catNap_fire w)) = min 100 (p_hp (player w) +
        (if a_level (abilities w) catNap \<ge> 3 then 30 else 20)) \<and>
     p_hp (player (catNap_fire w)) \<le> p_maxHp (player (catNap_fire w)) \<and>
     p_maxHp (player (catNap_fire w)) = 100 \<and>
     p_hp (player (levelUp w)) = min 100 (p_hp (player w) + 20) \<and>
     p_hp (player (levelUp w)) \<le> p_maxHp (player (levelUp w)) \<and>
     p_maxHp (player (levelUp w)) = 100"
proof -
  assume "reachable w"
  then have "hpOk w" by (rule reachable_hpOk)
  then show ?thesis
    by (simp add: hpOk_def catNap_fire_def catNap_healing_def levelUp_def Let_def showLevelUpModal_frame)
qed

theorem heal_capped_witness:
  "reachable (startGame world0) \<and>
   p_hp (player (catNap_fire (startGame world0))) \<le> 100 \<and>
   p_maxHp (player (catNap_fire (startGame world0))) = 100 \<and>
   p_hp (player (levelUp (startGame world0))) \<le> 100 \<and>
   p_maxHp (player (levelUp (startGame world0))) = 100"
proof -
  have r: "reachable (startGame world0)" by (rule reachable.start)
  from heal_capped [OF r] r show ?thesis by simp
qed

subsection \<open>Upgrade offers\<close>

lemma rand_val_range: "0 \<le> rand_val r \<and> rand_val r < 1"
  using rand_val [of r] by simp

lemma randomIndex_lt:
  assumes "av \<noteq> []"
  shows "nat \<lfloor>rand_val r * real (length av)\<rfloor> < length av"
proof -
  have pos: "0 < real (length av)" using assms by simp
  have "rand_val r * real (length av) < 1 * real (length av)"
    using rand_val_range [of r] pos by (intro mult_strict_right_mono) simp_all
  then have lt: "\<lfloor>rand_val r * real (length av)\<rfloor> < int (length av)"
    by (simp add: floor_less_iff)
  have ge: "0 \<le> \<lfloor>rand_val r * real (length av)\<rfloor>"
    using rand_val_range [of r] by simp
  from ge lt show ?thesis by (simp add: nat_less_iff)
qed

lemma splice1_nth_split:
  "i < length xs \<Longrightarrow> xs = take i xs @ xs ! i # drop (Suc i) xs"
  by (rule id_take_nth_drop)

lemma distinct_keys_pick:
  assumes "i < length av" "distinct (map f (sel @ av))"
  shows "distinct (map f ((sel @ [av ! i]) @ splice1 i av))"
proof -
  have "av = take i av @ av ! i # drop (Suc i) av" using assms(1) by (rule id_take_nth_drop)
  then obtain A B where av: "av = A @ av ! i # B" and sp: "splice1 i av = A @ B"
    unfolding splice1_def by blast
  from assms(2) have "distinct (map f (sel @ A @ av ! i # B))" using av by simp
  then have "distinct (map f ((sel @ [av ! i]) @ A @ B))" by auto
  then show ?thesis using sp by simp
qed

lemma set_pick:
  assumes "i < length av"
  shows "set ((sel @ [av ! i]) @ splice1 i av) = set sel \<union> set av"
proof -
  have "av = take i av @ av ! i # drop (Suc i) av" using assms(1) by (rule id_take_nth_drop)
  then obtain A B where av: "av = A @ av ! i # B" and sp: "splice1 i av = A @ B"
    unfolding splice1_def by blast
  have "set ((sel @ [av ! i]) @ A @ B) = set sel \<union> set (A @ av ! i # B)" by auto
  then show ?thesis using sp av by simp
qed

lemma length_splice1: "i < length xs \<Longrightarrow> length (splice1 i xs) = length xs - 1"
  by (simp add: splice1_def)

lemma selectUpgrades_result:
  assumes "distinct (map u_key (sel @ av))" "length sel \<le> 2"
  shows "distinct (map u_key (fst (selectUpgrades sel av w))) \<and>
         set (fst (selectUpgrades sel av w)) \<subseteq> set sel \<union> set av \<and>
         length (fst (selectUpgrades sel av w)) = min 2 (length sel + length av)"
  using assms
proof (induction "2 - length sel" arbitrary: sel av w)
  case 0
  then have "selectUpgrades sel av w = (sel, w)" by (intro selectUpgrades_stop) simp
  with 0 show ?case by simp
next
  case (Suc m)
  show ?case
  proof (cases "av = []")
    case True
    then have "selectUpgrades sel av w = (sel, w)" by (intro selectUpgrades_stop) simp
    with Suc.prems True show ?thesis by simp
  next
    case False
    let ?i = "nat \<lfloor>rand_val (rng w (rng_pos w)) * real (length av)\<rfloor>"
    let ?w = "w\<lparr>rng_pos := Suc (rng_pos w)\<rparr>"
    let ?sel = "sel @ [av ! ?i]"
    from Suc.hyps have lt: "length sel < 2" by simp
    have i: "?i < length av" using False by (rule randomIndex_lt)
    have step: "selectUpgrades sel av w = selectUpgrades ?sel (splice1 ?i av) ?w"
      using lt False by (rule selectUpgrades_step)
    have m: "m = 2 - length ?sel" using Suc.hyps by simp
    have d: "distinct (map u_key (?sel @ splice1 ?i av))"
      using i Suc.prems(1) by (rule distinct_keys_pick)
    have l: "length ?sel \<le> 2" using lt by simp
    note IH = Suc.hyps(1) [OF m d l, of ?w]
    have s: "set ?sel \<union> set (splice1 ?i av) = set sel \<union> set av"
      using set_pick [OF i, of sel] by simp
    have n: "length ?sel + length (splice1 ?i av) = length sel + length av"
      using i by (simp add: length_splice1)
    from IH show ?thesis unfolding step s n by simp
  qed
qed

lemma ability_keys_all: "set ability_keys = UNIV"
proof -
  have "k \<in> set ability_keys" for k
    by (cases k) (simp_all add: ability_keys_def)
  then show ?thesis by blast
qed

lemma availableUpgrades_keys:
  "map u_key (availableUpgrades ab) = filter (\<lambda>k. a_level ab k < 5) ability_keys"
  by (simp add: availableUpgrades_def a_maxLevel_def comp_def)

lemma availableUpgrades_pool:
  "u_key ` set (availableUpgrades ab) = {k. a_level ab k < 5}"
proof -
  have "u_key ` set (availableUpgrades ab) = set (map u_key (availableUpgrades ab))" by simp
  also have "\<dots> = {k. a_level ab k < 5}"
    unfolding availableUpgrades_keys using ability_keys_all by auto
  finally show ?thesis .
qed

lemma availableUpgrades_distinct: "distinct (map u_key (availableUpgrades ab))"
  unfolding availableUpgrades_keys by (simp add: ability_keys_def)

lemma upgradeChoices_showLevelUpModal:
  "upgradeChoices (showLevelUpModal w) =
     fst (selectUpgrades [] (availableUpgrades (abilities w)) (w\<lparr>paused := True\<rparr>))"
  by (simp add: showLevelUpModal_def Let_def case_prod_beta)

lemma a_level_initClawOrbit: "a_level (initClawOrbit ab) = a_level ab"
  by (simp add: initClawOrbit_def Let_def)

text \<open>
  Claim C4. The candidate pool holds exactly the abilities whose level is below 5; the
  offer has two entries, or as many as the pool has when that is fewer; no ability is
  offered twice and every offer comes from the pool; \<open>selectUpgrade\<close> adds one to the level
  of the chosen ability and leaves every other level as it was.
\<close>

theorem upgrade_offer_and_selection:
  "u_key ` set (availableUpgrades (abilities w)) = {k. a_level (abilities w) k < 5} \<and>
   length (upgradeChoices (showLevelUpModal w)) = min 2 (length (availableUpgrades (abilities w))) \<and>
   distinct (map u_key (upgradeChoices (showLevelUpModal w))) \<and>
   set (upgradeChoices (showLevelUpModal w)) \<subseteq> set (availableUpgrades (abilities w)) \<and>
   a_level (abilities (selectUpgrade k w)) = (a_level (abilities w))(k := a_level (abilities w) k + 1)"
proof -
  have d: "distinct (map u_key ([] @ availableUpgrades (abilities w)))"
    using availableUpgrades_distinct by simp
  have l: "length ([] :: upgrade list) \<le> 2" by simp
  note r = selectUpgrades_result [OF d l, of "w\<lparr>paused := True\<rparr>"]
  have s: "a_level (abilities (selectUpgrade k w)) = (a_level (abilities w))(k := a_level (abilities w) k + 1)"
    by (simp add: selectUpgrade_def Let_def a_level_initClawOrbit)
  show ?thesis
    using r s availableUpgrades_pool [of "abilities w"]
    unfolding upgradeChoices_showLevelUpModal by simp
qed

theorem upgrade_offer_and_selection_witness:
  "length (upgradeChoices (showLevelUpModal world0)) = 2 \<and>
   distinct (map u_key (upgradeChoices (showLevelUpModal world0))) \<and>
   a_level (abilities (selectUpgrade catNap world0)) catNap = 1 \<and>
   a_level (abilities (selectUpgrade catNap world0)) clawOrbit = 1"
proof -
  have "length (availableUpgrades (abilities world0)) = 5"
    by (simp add: availableUpgrades_def ability_keys_def a_maxLevel_def world0_def)
  moreover have "a_level (abilities world0) = (\<lambda>k. if k = clawOrbit then 1 else 0)"
    by (simp add: world0_def)
  ultimately show ?thesis
    using upgrade_offer_and_selection [of world0 catNap] by simp
qed

subsection \<open>Evaluating the loops at concrete inputs\<close>

lemma hypot_less_iff: "hypot a b < r \<longleftrightarrow> 0 < r \<and> a\<^sup>2 + b\<^sup>2 < r\<^sup>2"
proof (cases "0 < r")
  case True
  then have "sqrt (r\<^sup>2) = r" by simp
  then have "sqrt (a\<^sup>2 + b\<^sup>2) < r \<longleftrightarrow> sqrt (a\<^sup>2 + b\<^sup>2) < sqrt (r\<^sup>2)" by simp
  also have "\<dots> \<longleftrightarrow> a\<^sup>2 + b\<^sup>2 < r\<^sup>2" by (rule real_sqrt_less_iff)
  finally show ?thesis using True by (simp add: hypot_def)
next
  case False
  have "0 \<le> sqrt (a\<^sup>2 + b\<^sup>2)" by simp
  with False have "\<not> sqrt (a\<^sup>2 + b\<^sup>2) < r" by linarith
  with False show ?thesis by (simp add: hypot_def)
qed

lemma hypot_less_eval: "hypot a b < r \<longleftrightarrow> 0 < r \<and> a * a + b * b < r * r"
  by (simp add: hypot_less_iff power2_eq_square)

lemma hypot_6_8: "hypot (- 6) (- 8) = 10"
proof -
  have "sqrt ((- 6)\<^sup>2 + (- 8)\<^sup>2) = (10::real)"
    by (rule real_sqrt_unique) simp_all
  then show ?thesis by (simp add: hypot_def)
qed

lemma forEach_from_step:
  "k < len \<Longrightarrow> forEach_from arr f k len w =
     forEach_from arr f (Suc k) len (if k < length (arr w) then f (arr w ! k) k w else w)"
  by (subst forEach_from.simps) simp

lemma forEach_from_done: "\<not> k < len \<Longrightarrow> forEach_from arr f k len w = w"
  by (subst forEach_from.simps) simp

lemma forEach_2:
  "length (arr w) = 2 \<Longrightarrow> forEach arr f w =
     (let w1 = f (arr w ! 0) 0 w;
          w2 = (if 1 < length (arr w1) then f (arr w1 ! 1) 1 w1 else w1)
      in w2)"
  by (simp add: forEach_def forEach_from_step forEach_from_done Let_def numeral_2_eq_2)

lemma world_dead_rat_touches_fields:
  "player world_dead_rat_touches = (player world0)\<lparr>p_hp := 98, p_invulnerable := Some 0\<rparr>"
  "enemies world_dead_rat_touches = [rat_dead, rat_far]"
  "a_level (abilities world_dead_rat_touches) clawOrbit = Suc 0"
  "a_level (abilities world_dead_rat_touches) catNap = 0"
  "claws (abilities world_dead_rat_touches) = claws_east_west"
  "timers world_dead_rat_touches = []"
  "kills world_dead_rat_touches = 0"
  "rng world_dead_rat_touches = (\<lambda>n. half)"
  by (simp_all add: world_dead_rat_touches_def world_armed_def world0_def)

lemma player0_fields:
  "p_x (player world0) = 600" "p_y (player world0) = 400" "p_hp (player world0) = 100"
  by (simp_all add: world0_def)

lemma rat_fields:
  "e_size rat_moved = 8" "e_hp rat_moved = - 13" "e_damage rat_moved = 2"
  "e_x rat_dead = 606" "e_y rat_dead = 408"
  by (simp_all add: rat_moved_def rat_dead_def rat_at_def)

lemma rat_dead_moves:
  "moveEnemy ((player world0)\<lparr>p_hp := 98, p_invulnerable := Some 0\<rparr>) rat_dead = rat_moved"
  by (simp add: moveEnemy_def Let_def player0_fields rat_dead_def rat_moved_def rat_at_def hypot_6_8)

lemma claws_miss: "clawLoop (Suc 0) claws_east_west (rat_moved, ts) = (rat_moved, ts)"
  by (simp add: clawHits_def hypot_less_eval rat_moved_def rat_at_def claws_east_west_def Let_def)

lemma rat_dead_hits:
  "contactHit rat_moved 0 world_dead_rat_touches =
     world_dead_rat_touches\<lparr>player := player_hit, enemies := [rat_far]\<rparr>"
  by (simp add: contactHit_def Let_def world_dead_rat_touches_fields player0_fields splice1_def
      rat_fields player_hit_def)

lemma removeDead_no_drop:
  "rand_val (rng v (rng_pos v)) = 1/2 \<Longrightarrow>
     removeDead e i v = v\<lparr>rng_pos := Suc (rng_pos v), enemies := splice1 i (enemies v),
                         kills := kills v + 1\<rparr>"
  by (simp add: removeDead_def dropXP_def Math_random_def Let_def)

lemma rat_dead_step:
  "enemies (enemyStep rat_dead 0 world_dead_rat_touches) = [] \<and>
   kills (enemyStep rat_dead 0 world_dead_rat_touches) = 1 \<and>
   player (enemyStep rat_dead 0 world_dead_rat_touches) = player_hit"
  by (simp add: enemyStep_def Let_def world_dead_rat_touches_fields player0_fields rat_fields
      rat_dead_moves hypot_6_8 vulnerable_def rat_dead_hits claws_miss removeDead_no_drop
      rand_val_half splice1_def)

subsection \<open>Projectiles against enemies\<close>

text \<open>
  Claim C1, at the failing input. The non-piercing whip reaches two rats in the same frame:
  both lose its 25 points of damage, and the two \<^verbatim>\<open>splice(projIndex, 1)\<close> calls remove the
  whip and then the hairball that moved into its slot, which had touched nothing.
\<close>

theorem whip_hits_twice:
  "map pr_pierce (projectiles world_two_rats) = [False, False] \<and>
   map e_hp (enemies world_two_rats) = [12, 12] \<and>
   map e_hp (enemies (updateProjectiles world_two_rats)) = [- 13, - 13] \<and>
   projectiles (updateProjectiles world_two_rats) = []"
  by (simp add: updateProjectiles_def forEach_2 projStep_def projHit_def tooFar_def splice1_def
      hypot_less_eval Let_def world_two_rats_def world_armed_def world0_def whip_shot_def
      hairball_shot_def rat_at_def)

subsection \<open>Contact with the player\<close>

text \<open>
  Claim C2, at the failing input. A rat already at -13 hit points touches the player: the
  player loses 2 hit points and is invulnerable for 60 frames (59 once the update has
  counted one down), the rat is spliced out, and then the dead-enemy branch splices slot 0
  again, which removes the second, healthy rat 300 pixels away.
\<close>

theorem contact_removes_two:
  "map e_hp (enemies world_dead_rat_touches) = [- 13, 12] \<and>
   enemies (updateEnemies world_dead_rat_touches) = [] \<and>
   kills (updateEnemies world_dead_rat_touches) = 1 \<and>
   p_hp (player (updateEnemies world_dead_rat_touches)) = 96 \<and>
   p_invulnerable (player (updateEnemies world_dead_rat_touches)) = Some 59"
proof -
  have "forEach enemies enemyStep world_dead_rat_touches =
      enemyStep rat_dead 0 world_dead_rat_touches"
    by (simp add: forEach_2 world_dead_rat_touches_fields Let_def rat_dead_step)
  then have "enemies (updateEnemies world_dead_rat_touches) = [] \<and>
      kills (updateEnemies world_dead_rat_touches) = 1 \<and>
      p_hp (player (updateEnemies world_dead_rat_touches)) = 96 \<and>
      p_invulnerable (player (updateEnemies world_dead_rat_touches)) = Some 59"
    by (simp add: updateEnemies_def Let_def rat_dead_step player_hit_def)
  moreover have "map e_hp (enemies world_dead_rat_touches) = [- 13, 12]"
    by (simp add: world_dead_rat_touches_fields rat_dead_def rat_far_def rat_at_def)
  ultimately show ?thesis by simp
qed

end
